theory Spec2Isabelle
  imports Complex_Main "HOL-Library.Sublist" "HOL-Library.AList"
begin

section \<open>JavaScript values used by the engine\<close>

text \<open>
  Texts are lists of 8-bit code units (the code units U+0000 to U+00FF of a JavaScript
  string).  Counts and lengths are natural numbers.  Numbers that the code divides or
  scales are modelled as reals, that is, without the rounding of IEEE doubles; where the
  code can produce an infinity or NaN (\<^verbatim>\<open>Math.log(0)\<close>, \<^verbatim>\<open>0/0\<close>) the
  type \<open>jsnum\<close> carries those values explicitly.  The concrete values compared
  with a threshold below (3/10, 2/3, 3.75, 10.5) compare the same way as doubles: a
  quotient of two small integers rounds to the double that its decimal literal denotes.
\<close>

datatype jsnum = Num real | PosInfinity | NegInfinity | NaN

fun js_neg :: "jsnum \<Rightarrow> jsnum" where
  "js_neg (Num r) = Num (- r)"
| "js_neg PosInfinity = NegInfinity"
| "js_neg NegInfinity = PosInfinity"
| "js_neg NaN = NaN"

fun js_add :: "jsnum \<Rightarrow> jsnum \<Rightarrow> jsnum" where
  "js_add NaN _ = NaN"
| "js_add _ NaN = NaN"
| "js_add (Num a) (Num b) = Num (a + b)"
| "js_add PosInfinity NegInfinity = NaN"
| "js_add NegInfinity PosInfinity = NaN"
| "js_add PosInfinity _ = PosInfinity"
| "js_add _ PosInfinity = PosInfinity"
| "js_add NegInfinity _ = NegInfinity"
| "js_add _ NegInfinity = NegInfinity"

definition js_sub :: "jsnum \<Rightarrow> jsnum \<Rightarrow> jsnum" where
  "js_sub a b = js_add a (js_neg b)"

definition js_signed_inf :: "bool \<Rightarrow> jsnum" where
  "js_signed_inf positive = (if positive then PosInfinity else NegInfinity)"

fun js_mul :: "jsnum \<Rightarrow> jsnum \<Rightarrow> jsnum" where
  "js_mul NaN _ = NaN"
| "js_mul _ NaN = NaN"
| "js_mul (Num a) (Num b) = Num (a * b)"
| "js_mul (Num a) PosInfinity = (if a = 0 then NaN else js_signed_inf (0 < a))"
| "js_mul (Num a) NegInfinity = (if a = 0 then NaN else js_signed_inf (a < 0))"
| "js_mul PosInfinity (Num b) = (if b = 0 then NaN else js_signed_inf (0 < b))"
| "js_mul NegInfinity (Num b) = (if b = 0 then NaN else js_signed_inf (b < 0))"
| "js_mul PosInfinity PosInfinity = PosInfinity"
| "js_mul NegInfinity NegInfinity = PosInfinity"
| "js_mul PosInfinity NegInfinity = NegInfinity"
| "js_mul NegInfinity PosInfinity = NegInfinity"

text \<open>\<^verbatim>\<open>Math.max(a, b)\<close>: NaN if either argument is NaN.\<close>

fun js_max :: "jsnum \<Rightarrow> jsnum \<Rightarrow> jsnum" where
  "js_max NaN _ = NaN"
| "js_max _ NaN = NaN"
| "js_max PosInfinity _ = PosInfinity"
| "js_max _ PosInfinity = PosInfinity"
| "js_max NegInfinity b = b"
| "js_max a NegInfinity = a"
| "js_max (Num a) (Num b) = Num (max a b)"

text \<open>\<^verbatim>\<open>Math.log(x)\<close>: NaN below zero, \<^verbatim>\<open>-Infinity\<close> at zero.\<close>

fun js_log :: "jsnum \<Rightarrow> jsnum" where
  "js_log (Num r) = (if r < 0 then NaN else if r = 0 then NegInfinity else Num (ln r))"
| "js_log PosInfinity = PosInfinity"
| "js_log NegInfinity = NaN"
| "js_log NaN = NaN"

definition js_finite :: "jsnum \<Rightarrow> bool" where
  "js_finite x = (case x of Num _ \<Rightarrow> True | _ \<Rightarrow> False)"

subsection \<open>Strings\<close>

text \<open>The class \<^verbatim>\<open>\s\<close> (also what \<^verbatim>\<open>trim\<close> strips): TAB, LF, VT, FF, CR, space, NBSP.\<close>

definition isSpace :: "char \<Rightarrow> bool" where
  "isSpace c = (c \<in> set [CHR 0x09, CHR 0x0A, CHR 0x0B, CHR 0x0C, CHR 0x0D, CHR 0x20, CHR 0xA0])"

text \<open>The class \<^verbatim>\<open>\w\<close>.\<close>

definition isWord :: "char \<Rightarrow> bool" where
  "isWord c = (c \<in> set ''abcdefghijklmnopqrstuvwxyzABCDEFGHIJKLMNOPQRSTUVWXYZ0123456789_'')"

text \<open>The class \<^verbatim>\<open>\d\<close>.\<close>

definition isDigit :: "char \<Rightarrow> bool" where
  "isDigit c = (c \<in> set ''0123456789'')"

definition trim :: "string \<Rightarrow> string" where
  "trim s = rev (dropWhile isSpace (rev (dropWhile isSpace s)))"

text \<open>
  \<^verbatim>\<open>toLowerCase\<close> on the code units below 256: the letters A to Z, and the Latin-1
  capitals U+00C0 to U+00DE except the multiplication sign U+00D7, move up by 32.
\<close>

definition toLowerChar :: "char \<Rightarrow> char" where
  "toLowerChar c =
     (let n = (of_char c :: nat)
      in if (65 \<le> n \<and> n \<le> 90) \<or> (192 \<le> n \<and> n \<le> 222 \<and> n \<noteq> 215) then char_of (n + 32) else c)"

definition toLowerCase :: "string \<Rightarrow> string" where
  "toLowerCase s = map toLowerChar s"

text \<open>\<^verbatim>\<open>s.includes(t)\<close>: \<open>t\<close> occurs in \<open>s\<close> as a contiguous run.\<close>

fun includes_str :: "string \<Rightarrow> string \<Rightarrow> bool" where
  "includes_str [] t = (t = [])"
| "includes_str (c # cs) t = (prefix t (c # cs) \<or> includes_str cs t)"

text \<open>\<^verbatim>\<open>s.split(d)\<close> for a separator of one character; the empty text gives one empty piece.\<close>

fun splitOn :: "char \<Rightarrow> string \<Rightarrow> string list" where
  "splitOn d [] = [[]]"
| "splitOn d (c # cs) =
     (if c = d then [] # splitOn d cs
      else (case splitOn d cs of [] \<Rightarrow> [[c]] | p # ps \<Rightarrow> (c # p) # ps))"

text \<open>\<^verbatim>\<open>xs[i]\<close>, which is \<^verbatim>\<open>undefined\<close> (here \<open>None\<close>) out of range.\<close>

definition nth_opt :: "'a list \<Rightarrow> nat \<Rightarrow> 'a option" where
  "nth_opt xs i = (if i < length xs then Some (xs ! i) else None)"

section \<open>Regular expressions\<close>

text \<open>
  A backtracking matcher for the constructs the source's patterns use.  A pattern run on
  a state yields every way it can match from there, in the order in which a backtracking
  engine tries them, so the head of the list is the match JavaScript reports.
  \<open>Rep r m M g\<close> is \<open>r\<close> repeated at least \<open>m\<close> and at most \<open>M\<close> times
  (\<open>None\<close>: unbounded), greedy when \<open>g\<close> holds; once the minimum is reached an iteration
  that consumes nothing is rejected, as the standard prescribes.
\<close>

datatype re =
    Cls "char \<Rightarrow> bool"
  | Epsilon
  | WordB
  | Seq re re
  | Alt re re
  | Rep re nat "nat option" bool
  | Grp nat re

record mstate =
  prev :: "char option"
  rest :: string
  caps :: "(nat \<times> string) list"

definition at_boundary :: "mstate \<Rightarrow> bool" where
  "at_boundary st =
     ((case prev st of None \<Rightarrow> False | Some c \<Rightarrow> isWord c)
      \<noteq> (case rest st of [] \<Rightarrow> False | c # _ \<Rightarrow> isWord c))"

function repeat :: "(mstate \<Rightarrow> mstate list) \<Rightarrow> nat \<Rightarrow> nat option \<Rightarrow> bool \<Rightarrow> mstate \<Rightarrow> mstate list" where
  "repeat f m M g st =
     (if M = Some 0 then [st]
      else if 0 < m then concat (map (repeat f (m - 1) (map_option (\<lambda>k. k - 1) M) g) (f st))
      else let iter = concat (map (repeat f 0 (map_option (\<lambda>k. k - 1) M) g)
                        (filter (\<lambda>st'. length (rest st') < length (rest st)) (f st)))
           in if g then iter @ [st] else st # iter)"
  by pat_completeness auto
termination
  by (relation "measures [\<lambda>(f, m, M, g, st). m, \<lambda>(f, m, M, g, st). length (rest st)]") auto

definition consumed :: "mstate \<Rightarrow> mstate \<Rightarrow> string" where
  "consumed st st' = take (length (rest st) - length (rest st')) (rest st)"

primrec run :: "re \<Rightarrow> mstate \<Rightarrow> mstate list" where
  "run (Cls p) st =
     (case rest st of [] \<Rightarrow> []
      | c # cs \<Rightarrow> if p c then [st\<lparr>prev := Some c, rest := cs\<rparr>] else [])"
| "run Epsilon st = [st]"
| "run WordB st = (if at_boundary st then [st] else [])"
| "run (Seq a b) st = concat (map (run b) (run a st))"
| "run (Alt a b) st = run a st @ run b st"
| "run (Rep r m M g) st = repeat (run r) m M g st"
| "run (Grp n r) st = map (\<lambda>st'. st'\<lparr>caps := (n, consumed st st') # caps st'\<rparr>) (run r st)"

text \<open>The match at a fixed position: the first alternative that succeeds.\<close>

definition matchAt :: "re \<Rightarrow> char option \<Rightarrow> string \<Rightarrow> mstate option" where
  "matchAt r p s = (case run r \<lparr>prev = p, rest = s, caps = []\<rparr> of [] \<Rightarrow> None | st # _ \<Rightarrow> Some st)"

text \<open>
  The leftmost match at or after the current position: the text from the match's start,
  and the state at its end.
\<close>

fun search :: "re \<Rightarrow> char option \<Rightarrow> string \<Rightarrow> (string \<times> mstate) option" where
  "search r p [] = (case matchAt r p [] of None \<Rightarrow> None | Some st \<Rightarrow> Some ([], st))"
| "search r p (c # cs) =
     (case matchAt r p (c # cs) of None \<Rightarrow> search r (Some c) cs | Some st \<Rightarrow> Some (c # cs, st))"

lemma search_length: "search r p s = Some (s', st) \<Longrightarrow> length s' \<le> length s"
proof (induction s arbitrary: p)
  case Nil
  then show ?case by (auto split: option.splits)
next
  case (Cons c cs)
  show ?case
  proof (cases "matchAt r p (c # cs)")
    case None
    with Cons.prems have "search r (Some c) cs = Some (s', st)" by simp
    from Cons.IH [OF this] show ?thesis by simp
  next
    case (Some a)
    with Cons.prems show ?thesis by auto
  qed
qed

text \<open>A match: the matched text (group 0) and the captured groups.\<close>

type_synonym rmatch = "string \<times> (nat \<times> string) list"

definition groupOf :: "rmatch \<Rightarrow> nat \<Rightarrow> string option" where
  "groupOf m n = (if n = 0 then Some (fst m) else map_of (snd m) n)"

text \<open>
  \<^verbatim>\<open>s.matchAll(r)\<close> and \<^verbatim>\<open>s.match(r)\<close> for a global pattern: after a match the
  search goes on from its end, one character further when the match was empty.
\<close>

function matchAllFrom :: "re \<Rightarrow> char option \<Rightarrow> string \<Rightarrow> rmatch list" where
  "matchAllFrom r p s =
     (case search r p s of
        None \<Rightarrow> []
      | Some (s', st) \<Rightarrow>
          (take (length s' - length (rest st)) s', caps st) #
          (if length (rest st) < length s' then matchAllFrom r (prev st) (rest st)
           else (case s' of [] \<Rightarrow> [] | c # cs \<Rightarrow> matchAllFrom r (Some c) cs)))"
  by pat_completeness auto
termination
proof (relation "measure (\<lambda>(r, p, s). length s)", goal_cases)
  case 1
  show ?case by simp
next
  case (2 r p s x s' st)
  then show ?case using search_length [of r p s s' st] by simp
next
  case (3 r p s x s' st c cs)
  then show ?case using search_length [of r p s s' st] by simp
qed

definition matchAll :: "re \<Rightarrow> string \<Rightarrow> rmatch list" where
  "matchAll r s = matchAllFrom r None s"

text \<open>\<^verbatim>\<open>(s.match(r) || []).length\<close> for a global pattern.\<close>

definition countMatches :: "re \<Rightarrow> string \<Rightarrow> nat" where
  "countMatches r s = length (matchAll r s)"

text \<open>\<^verbatim>\<open>s.match(r)\<close> for a pattern without the global flag: the first match, if any.\<close>

definition matchFirst :: "re \<Rightarrow> string \<Rightarrow> rmatch option" where
  "matchFirst r s =
     (case search r None s of None \<Rightarrow> None
      | Some (s', st) \<Rightarrow> Some (take (length s' - length (rest st)) s', caps st))"

text \<open>\<^verbatim>\<open>r.test(s)\<close> on a fresh pattern.\<close>

definition test :: "re \<Rightarrow> string \<Rightarrow> bool" where
  "test r s = (search r None s \<noteq> None)"

text \<open>
  \<^verbatim>\<open>s.split(r)\<close> for a pattern without groups.  \<open>piece\<close> is the text since the last
  cut.  The pattern is tried at every position; a match that ends where the piece began
  (an empty match right after a cut) is skipped.
\<close>

function splitLoop :: "re \<Rightarrow> string \<Rightarrow> char option \<Rightarrow> string \<Rightarrow> string list" where
  "splitLoop r piece p [] = [piece]"
| "splitLoop r piece p (c # cs) =
     (case matchAt r p (c # cs) of
        None \<Rightarrow> splitLoop r (piece @ [c]) (Some c) cs
      | Some st \<Rightarrow>
          if length (rest st) < length (c # cs) then piece # splitLoop r [] (prev st) (rest st)
          else if piece = [] then splitLoop r [c] (Some c) cs
          else piece # splitLoop r [c] (Some c) cs)"
  by pat_completeness auto
termination
  by (relation "measure (\<lambda>(r, piece, p, s). length s)") auto

definition split :: "re \<Rightarrow> string \<Rightarrow> string list" where
  "split r s =
     (if s = [] then (case matchAt r None [] of None \<Rightarrow> [[]] | Some _ \<Rightarrow> [])
      else splitLoop r [] None s)"

subsection \<open>Pattern notation\<close>

definition chr :: "char \<Rightarrow> re" where
  "chr c = Cls (\<lambda>x. x = c)"

text \<open>A letter under the flag \<^verbatim>\<open>i\<close>.\<close>

definition chri :: "char \<Rightarrow> re" where
  "chri c = Cls (\<lambda>x. toLowerChar x = toLowerChar c)"

definition seqs :: "re list \<Rightarrow> re" where
  "seqs rs = foldr Seq rs Epsilon"

definition alts :: "re list \<Rightarrow> re" where
  "alts rs = (case rs of [] \<Rightarrow> Cls (\<lambda>_. False) | _ \<Rightarrow> foldr Alt (butlast rs) (last rs))"

definition lit :: "string \<Rightarrow> re" where
  "lit s = seqs (map chr s)"

definition liti :: "string \<Rightarrow> re" where
  "liti s = seqs (map chri s)"

definition star :: "re \<Rightarrow> re" where
  "star r = Rep r 0 None True"

definition plus1 :: "re \<Rightarrow> re" where
  "plus1 r = Rep r 1 None True"

definition opt :: "re \<Rightarrow> re" where
  "opt r = Rep r 0 (Some 1) True"

definition spaces :: re where
  "spaces = star (Cls isSpace)"

definition spaces1 :: re where
  "spaces1 = plus1 (Cls isSpace)"

definition word1 :: re where
  "word1 = plus1 (Cls isWord)"

definition noneOf :: "string \<Rightarrow> re" where
  "noneOf cs = Cls (\<lambda>x. x \<notin> set cs)"

definition anyChar :: re where
  "anyChar = Cls (\<lambda>_. True)"

section \<open>The evidence extractor (\<^verbatim>\<open>evidence-extractor.ts\<close>)\<close>

subsection \<open>Data\<close>

record Halstead =
  difficulty :: real
  volume :: nat
  effort :: real

record ComplexityMetrics =
  cyclomatic :: real
  cognitive :: nat
  halstead :: Halstead
  maintainabilityIndex :: jsnum

text \<open>The field \<^verbatim>\<open>functions\<close> of \<^verbatim>\<open>SizeMetrics\<close> carries a prefix here.\<close>

record SizeMetrics =
  loc :: nat
  sloc :: nat
  files :: nat
  size_functions :: nat
  classes :: nat

record QualityMetrics =
  duplicateLines :: nat
  duplicateBlocks :: nat
  codeSmells :: nat
  technicalDebt :: nat

record DependencyMetrics =
  direct :: nat
  transitive :: nat
  outdated :: nat
  vulnerable :: nat
  licenses :: "string list"

text \<open>The field \<^verbatim>\<open>size\<close> of \<^verbatim>\<open>CodeMetrics\<close> is \<open>size_metrics\<close> here.\<close>

record CodeMetrics =
  complexity :: ComplexityMetrics
  size_metrics :: SizeMetrics
  quality :: QualityMetrics
  dependencies :: DependencyMetrics

text \<open>The impact levels \<^verbatim>\<open>'high' | 'medium' | 'low' | 'none'\<close>.\<close>

datatype impact = High | Medium | Low | NoImpact

record PerformanceImpact =
  cpuImpact :: impact
  memoryImpact :: impact
  ioImpact :: impact
  estimatedLatencyChange :: nat
  scalabilityIssues :: "string list"
  optimizationOpportunities :: "string list"

datatype outcome = Merged | Rejected | Reverted

text \<open>
  \<open>date\<close> and \<open>author\<close> come from destructuring a split line and are
  \<^verbatim>\<open>undefined\<close> (\<open>None\<close>) when the line has too few fields.
\<close>

record HistoricalMatch =
  commit :: string
  date :: "string option"
  author :: "string option"
  similarity :: real
  outcome :: outcome
  issues :: "string list"
  historicalPerformanceImpact :: "real option"

datatype change_kind = Added | Modified | Deleted

text \<open>The interface \<^verbatim>\<open>Change\<close>; its fields \<^verbatim>\<open>file\<close> and \<^verbatim>\<open>type\<close> carry a prefix here.\<close>

record Change =
  change_file :: string
  change_type :: change_kind
  additions :: nat
  deletions :: nat
  patches :: "string list"

subsection \<open>The environment: file store and version control\<close>

text \<open>
  The file store maps a path (relative to the repository) to the file's content;
  \<open>None\<close> is a read that throws.  A version-control command is a function to the
  command's output, \<open>None\<close> when \<^verbatim>\<open>execSync\<close> throws.
\<close>

type_synonym filestore = "string \<Rightarrow> string option"

record GitEnv =
  gitLog :: "string option"
  gitShow :: "string \<Rightarrow> string option"
  gitBranchContains :: "string \<Rightarrow> string option"
  gitRevertSearch :: "string \<Rightarrow> string option"
  gitMessage :: "string \<Rightarrow> string option"

definition getFileContent :: "filestore \<Rightarrow> string \<Rightarrow> string" where
  "getFileContent fs filepath = (case fs filepath of Some content \<Rightarrow> content | None \<Rightarrow> [])"

subsection \<open>Token-set similarity of two diffs\<close>

text \<open>\<^verbatim>\<open>/\b\w+\b/g\<close>\<close>

definition token_re :: re where
  "token_re = seqs [WordB, word1, WordB]"

definition calculateDiffSimilarity :: "string \<Rightarrow> string \<Rightarrow> real" where
  "calculateDiffSimilarity diff1 diff2 =
     (let tokens1 = set (map fst (matchAll token_re diff1));
          tokens2 = set (map fst (matchAll token_re diff2));
          inter = Set.filter (\<lambda>x. x \<in> tokens2) tokens1;
          uni = tokens1 \<union> tokens2
      in if card uni > 0 then real (card inter) / real (card uni) else 0)"

subsection \<open>Historical matches\<close>

definition getCommitOutcome :: "GitEnv \<Rightarrow> string \<Rightarrow> outcome" where
  "getCommitOutcome env hash =
     (case gitBranchContains env hash of
        None \<Rightarrow> Merged
      | Some out \<Rightarrow>
          if trim out = [] then Rejected
          else (case gitRevertSearch env (take 7 hash) of
                  None \<Rightarrow> Merged
                | Some found \<Rightarrow> if trim found \<noteq> [] then Reverted else Merged))"

text \<open>\<^verbatim>\<open>/#(\d+)/g\<close>\<close>

definition issue_re :: re where
  "issue_re = seqs [chr CHR ''#'', Grp 1 (plus1 (Cls isDigit))]"

definition getRelatedIssues :: "GitEnv \<Rightarrow> string \<Rightarrow> string list" where
  "getRelatedIssues env hash =
     (case gitMessage env hash of
        None \<Rightarrow> []
      | Some message \<Rightarrow> concat (map (\<lambda>m. case groupOf m 1 of None \<Rightarrow> [] | Some g \<Rightarrow> [g]) (matchAll issue_re message)))"

text \<open>The first field of a line of the log (a split is never empty).\<close>

definition commitHash :: "string \<Rightarrow> string" where
  "commitHash commitLine = hd (splitOn CHR ''|'' commitLine)"

text \<open>
  The loop over the lines of the log.  A \<^verbatim>\<open>git show\<close> that throws leaves the loop
  through the \<^verbatim>\<open>catch\<close>: the matches collected before it are kept, the later lines are
  not looked at.
\<close>

fun scanCommits :: "GitEnv \<Rightarrow> string \<Rightarrow> string list \<Rightarrow> HistoricalMatch list" where
  "scanCommits env diff [] = []"
| "scanCommits env diff (commitLine # commits) =
     (let parts = splitOn CHR ''|'' commitLine;
          hash = commitHash commitLine
      in case gitShow env hash of
           None \<Rightarrow> []
         | Some out \<Rightarrow>
             (let commitDiff = trim out;
                  sim = calculateDiffSimilarity diff commitDiff
              in (if sim > 3 / 10
                  then [\<lparr>commit = hash, date = nth_opt parts 1, author = nth_opt parts 2,
                          similarity = sim, outcome = getCommitOutcome env hash,
                          issues = getRelatedIssues env hash,
                          historicalPerformanceImpact = None\<rparr>]
                  else []) @ scanCommits env diff commits))"

text \<open>
  \<^verbatim>\<open>matches.sort((a, b) => b.similarity - a.similarity).slice(0, 10)\<close>; the sort of
  JavaScript is stable, as \<open>sort_key\<close> is.
\<close>

definition findSimilarChanges :: "GitEnv \<Rightarrow> string \<Rightarrow> HistoricalMatch list" where
  "findSimilarChanges env diff =
     (let matches = (case gitLog env of
                       None \<Rightarrow> []
                     | Some out \<Rightarrow> scanCommits env diff (splitOn CHR 0x0A (trim out)))
      in take 10 (sort_key (\<lambda>m. - similarity m) matches))"

text \<open>
  The similarity that the loop computes for a line of the log.  (A line whose
  \<^verbatim>\<open>git show\<close> throws is never scored; the value 0 stands for it here.)
\<close>

definition commitSimilarity :: "GitEnv \<Rightarrow> string \<Rightarrow> string \<Rightarrow> real" where
  "commitSimilarity env diff commitLine =
     (case gitShow env (commitHash commitLine) of
        None \<Rightarrow> 0
      | Some out \<Rightarrow> calculateDiffSimilarity diff (trim out))"

subsection \<open>Performance impact\<close>

text \<open>\<^verbatim>\<open>/for\s*\([^)]*\)\s*{[^}]*for\s*\(/g\<close>\<close>

definition nestedLoops_re :: re where
  "nestedLoops_re =
     seqs [lit ''for'', spaces, chr CHR ''('', star (noneOf '')''), chr CHR '')'', spaces,
           chr CHR ''{'', star (noneOf ''}''), lit ''for'', spaces, chr CHR ''('']"

text \<open>\<^verbatim>\<open>/readFileSync|execSync|writeFileSync/g\<close>\<close>

definition synchronousIO_re :: re where
  "synchronousIO_re = alts [lit ''readFileSync'', lit ''execSync'', lit ''writeFileSync'']"

text \<open>\<^verbatim>\<open>/\.map\s*\([^)]*\)\s*\.filter\s*\([^)]*\)\s*\.map/g\<close>\<close>

definition largeArrayOperations_re :: re where
  "largeArrayOperations_re =
     seqs [lit ''.map'', spaces, chr CHR ''('', star (noneOf '')''), chr CHR '')'', spaces,
           lit ''.filter'', spaces, chr CHR ''('', star (noneOf '')''), chr CHR '')'', spaces,
           lit ''.map'']"

text \<open>\<^verbatim>\<open>/for\s*\([^)]*\)\s*{[^}]*await\s+\w+\.query/g\<close>\<close>

definition nPlusOneQueries_re :: re where
  "nPlusOneQueries_re =
     seqs [lit ''for'', spaces, chr CHR ''('', star (noneOf '')''), chr CHR '')'', spaces,
           chr CHR ''{'', star (noneOf ''}''), lit ''await'', spaces1, word1, lit ''.query'']"

record AntiPatterns =
  nestedLoops :: nat
  synchronousIO :: nat
  largeArrayOperations :: nat
  nPlusOneQueries :: bool

definition detectPerformanceAntiPatterns :: "string \<Rightarrow> AntiPatterns" where
  "detectPerformanceAntiPatterns content =
     \<lparr>nestedLoops = countMatches nestedLoops_re content,
      synchronousIO = countMatches synchronousIO_re content,
      largeArrayOperations = countMatches largeArrayOperations_re content,
      nPlusOneQueries = test nPlusOneQueries_re content\<rparr>"

text \<open>One turn of the loop over the changes; \<open>acc\<close> holds the loop's variables.\<close>

definition analyzeChange :: "filestore \<Rightarrow> PerformanceImpact \<Rightarrow> Change \<Rightarrow> PerformanceImpact" where
  "analyzeChange fs acc change =
     (if change_type change = Deleted then acc
      else
        let content = getFileContent fs (change_file change);
            antiPatterns = detectPerformanceAntiPatterns content;
            acc1 = (if nestedLoops antiPatterns > 2
                    then acc\<lparr>cpuImpact := High,
                             scalabilityIssues := scalabilityIssues acc @
                               [''Deeply nested loops in '' @ change_file change],
                             estimatedLatencyChange := estimatedLatencyChange acc +
                               50 * nestedLoops antiPatterns\<rparr>
                    else acc);
            acc2 = (if synchronousIO antiPatterns > 0
                    then acc1\<lparr>ioImpact := High,
                              optimizationOpportunities := optimizationOpportunities acc1 @
                                [''Convert sync I/O to async in '' @ change_file change],
                              estimatedLatencyChange := estimatedLatencyChange acc1 +
                                100 * synchronousIO antiPatterns\<rparr>
                    else acc1);
            acc3 = (if largeArrayOperations antiPatterns > 0
                    then acc2\<lparr>memoryImpact := Medium,
                              optimizationOpportunities := optimizationOpportunities acc2 @
                                [''Optimize array operations in '' @ change_file change]\<rparr>
                    else acc2)
        in if nPlusOneQueries antiPatterns
           then acc3\<lparr>ioImpact := High,
                     scalabilityIssues := scalabilityIssues acc3 @
                       [''N+1 query pattern detected in '' @ change_file change],
                     estimatedLatencyChange := estimatedLatencyChange acc3 + 200\<rparr>
           else acc3)"

definition analyzePerformanceImpact :: "filestore \<Rightarrow> Change list \<Rightarrow> PerformanceImpact" where
  "analyzePerformanceImpact fs changes =
     foldl (analyzeChange fs)
       \<lparr>cpuImpact = NoImpact, memoryImpact = NoImpact, ioImpact = NoImpact,
        estimatedLatencyChange = 0, scalabilityIssues = [], optimizationOpportunities = []\<rparr>
       changes"

subsection \<open>Code metrics\<close>

text \<open>\<^verbatim>\<open>/function\s+\w+|=>\s*{|\w+\s*:\s*function/g\<close>\<close>

definition functions_re :: re where
  "functions_re =
     alts [seqs [lit ''function'', spaces1, word1],
           seqs [lit ''=>'', spaces, chr CHR ''{''],
           seqs [word1, spaces, chr CHR '':'', spaces, lit ''function'']]"

text \<open>\<^verbatim>\<open>/if\s*\(|else\s+if|\?\s*:/g\<close>\<close>

definition conditions_re :: re where
  "conditions_re =
     alts [seqs [lit ''if'', spaces, chr CHR ''(''],
           seqs [lit ''else'', spaces1, lit ''if''],
           seqs [chr CHR ''?'', spaces, chr CHR '':'']]"

text \<open>\<^verbatim>\<open>/for\s*\(|while\s*\(|do\s*{/g\<close>\<close>

definition loops_re :: re where
  "loops_re =
     alts [seqs [lit ''for'', spaces, chr CHR ''(''],
           seqs [lit ''while'', spaces, chr CHR ''(''],
           seqs [lit ''do'', spaces, chr CHR ''{'']]"

text \<open>\<^verbatim>\<open>/switch\s*\(|case\s+/g\<close>\<close>

definition switches_re :: re where
  "switches_re =
     alts [seqs [lit ''switch'', spaces, chr CHR ''(''],
           seqs [lit ''case'', spaces1]]"

text \<open>The result is the triple (cyclomatic, cognitive, functions).\<close>

definition analyzeCodeComplexity :: "string \<Rightarrow> nat \<times> nat \<times> nat" where
  "analyzeCodeComplexity content =
     (let fns = countMatches functions_re content;
          conditions = countMatches conditions_re content;
          loops = countMatches loops_re content;
          switches = countMatches switches_re content
      in (conditions + loops + switches + 1, conditions + loops * 2 + switches * 3, fns))"

text \<open>The running totals (cyclomatic, cognitive, functions) after one more file.\<close>

definition addComplexity :: "filestore \<Rightarrow> nat \<times> nat \<times> nat \<Rightarrow> string \<Rightarrow> nat \<times> nat \<times> nat" where
  "addComplexity fs totals file =
     (case (totals, analyzeCodeComplexity (getFileContent fs file)) of
        ((totalCyclomatic, totalCognitive, totalFunctions), (cy, cg, fn)) \<Rightarrow>
          (totalCyclomatic + cy, totalCognitive + cg, totalFunctions + fn))"

definition calculateComplexity :: "filestore \<Rightarrow> string list \<Rightarrow> ComplexityMetrics" where
  "calculateComplexity fs fileList =
     (case foldl (addComplexity fs) (0, 0, 0) fileList of
        (totalCyclomatic, totalCognitive, totalFunctions) \<Rightarrow>
          let avgCyclomatic = (if totalFunctions > 0
                               then real totalCyclomatic / real totalFunctions else 0);
              mi = js_max (Num 0)
                     (js_sub (js_sub (Num 171) (js_mul (Num (52 / 10)) (js_log (Num avgCyclomatic))))
                             (js_mul (Num (23 / 100)) (Num (real totalCognitive))))
          in \<lparr>cyclomatic = avgCyclomatic,
              cognitive = totalCognitive,
              halstead = \<lparr>difficulty = avgCyclomatic * 2,
                          volume = totalFunctions * 10,
                          effort = avgCyclomatic * real totalFunctions * 10\<rparr>,
              maintainabilityIndex = mi\<rparr>)"

text \<open>\<^verbatim>\<open>/function\s+\w+|=>\s*{/g\<close> and \<^verbatim>\<open>/class\s+\w+/g\<close>\<close>

definition sizeFunctions_re :: re where
  "sizeFunctions_re =
     alts [seqs [lit ''function'', spaces1, word1], seqs [lit ''=>'', spaces, chr CHR ''{'']]"

definition classes_re :: re where
  "classes_re = seqs [lit ''class'', spaces1, word1]"

definition addSize :: "filestore \<Rightarrow> nat \<times> nat \<times> nat \<times> nat \<Rightarrow> string \<Rightarrow> nat \<times> nat \<times> nat \<times> nat" where
  "addSize fs totals file =
     (case totals of
        (totalLoc, totalSloc, totalFunctions, totalClasses) \<Rightarrow>
          let content = getFileContent fs file;
              lines = splitOn CHR 0x0A content
          in (totalLoc + length lines,
              totalSloc + length (filter (\<lambda>line. trim line \<noteq> [] \<and> \<not> prefix ''//'' (trim line)) lines),
              totalFunctions + countMatches sizeFunctions_re content,
              totalClasses + countMatches classes_re content))"

definition calculateSize :: "filestore \<Rightarrow> string list \<Rightarrow> SizeMetrics" where
  "calculateSize fs fileList =
     (case foldl (addSize fs) (0, 0, 0, 0) fileList of
        (totalLoc, totalSloc, totalFunctions, totalClasses) \<Rightarrow>
          \<lparr>loc = totalLoc, sloc = totalSloc, files = length fileList,
           size_functions = totalFunctions, classes = totalClasses\<rparr>)"

text \<open>\<^verbatim>\<open>/function[\s\S]{500,}}/g\<close> and \<^verbatim>\<open>/{\s*{\s*{\s*{/g\<close>\<close>

definition longFunctions_re :: re where
  "longFunctions_re = seqs [lit ''function'', Rep anyChar 500 None True, chr CHR ''}'']"

definition deepNesting_re :: re where
  "deepNesting_re =
     seqs [chr CHR ''{'', spaces, chr CHR ''{'', spaces, chr CHR ''{'', spaces, chr CHR ''{'']"

text \<open>The running pair (codeSmells, technicalDebt) after one more file.\<close>

definition addQuality :: "filestore \<Rightarrow> nat \<times> nat \<Rightarrow> string \<Rightarrow> nat \<times> nat" where
  "addQuality fs totals file =
     (case totals of
        (smells, debt) \<Rightarrow>
          let content = getFileContent fs file;
              longFunctions = countMatches longFunctions_re content;
              deepNesting = countMatches deepNesting_re content
          in (smells + longFunctions + deepNesting, debt + longFunctions * 30 + deepNesting * 15))"

definition analyzeQuality :: "filestore \<Rightarrow> string list \<Rightarrow> QualityMetrics" where
  "analyzeQuality fs fileList =
     (case foldl (addQuality fs) (0, 0) fileList of
        (smells, debt) \<Rightarrow>
          \<lparr>duplicateLines = 0, duplicateBlocks = 0, codeSmells = smells, technicalDebt = debt\<rparr>)"

text \<open>
  \<open>manifest\<close> stands for the keys of the \<^verbatim>\<open>dependencies\<close> object of
  \<^verbatim>\<open>package.json\<close>: \<open>None\<close> when the file is missing or does not parse, the empty
  list when it has no such object.
\<close>

definition analyzeDependencies :: "string list option \<Rightarrow> string list \<Rightarrow> DependencyMetrics" where
  "analyzeDependencies manifest fileList =
     (let deps = (case manifest of None \<Rightarrow> {} | Some ks \<Rightarrow> set ks)
      in \<lparr>direct = card deps, transitive = card deps * 3, outdated = 0, vulnerable = 0,
          licenses = []\<rparr>)"

definition extractCodeMetrics :: "filestore \<Rightarrow> string list option \<Rightarrow> string list \<Rightarrow> CodeMetrics" where
  "extractCodeMetrics fs manifest fileList =
     \<lparr>complexity = calculateComplexity fs fileList,
      size_metrics = calculateSize fs fileList,
      quality = analyzeQuality fs fileList,
      dependencies = analyzeDependencies manifest fileList\<rparr>"

section \<open>The risk aggregator (\<^verbatim>\<open>calculateRiskAssessment\<close> of the context builder)\<close>

record SecurityScan =
  vulnerabilities :: nat
  critical :: nat
  high :: nat
  medium :: nat
  low :: nat

text \<open>A changed file as the review platform lists it; only \<open>filename\<close> is read.\<close>

record ChangedFile =
  filename :: string
  file_additions :: nat
  file_deletions :: nat
  changes :: nat
  patch :: "string option"

datatype risk_level = LowRisk | MediumRisk | HighRisk | CriticalRisk

record RiskAssessment =
  overall :: risk_level
  security :: real
  performance :: real
  architectural :: real
  compatibility :: real
  summary :: string

text \<open>
  The argument of \<^verbatim>\<open>calculateRiskAssessment\<close>.  The metrics and the impact are the
  values the evidence extractor returns (the context builder passes them on unchanged).
\<close>

record RiskData =
  securityScan :: "SecurityScan option"
  codeMetrics :: "CodeMetrics option"
  performanceImpact :: "PerformanceImpact option"
  changedFiles :: "ChangedFile list"

text \<open>\<^verbatim>\<open>const impactMap = { high: 3, medium: 2, low: 1, none: 0 }\<close>\<close>

fun impactMap :: "impact \<Rightarrow> real" where
  "impactMap High = 3"
| "impactMap Medium = 2"
| "impactMap Low = 1"
| "impactMap NoImpact = 0"

fun levelName :: "risk_level \<Rightarrow> string" where
  "levelName LowRisk = ''low''"
| "levelName MediumRisk = ''medium''"
| "levelName HighRisk = ''high''"
| "levelName CriticalRisk = ''critical''"

definition calculateRiskAssessment :: "RiskData \<Rightarrow> RiskAssessment" where
  "calculateRiskAssessment data =
     (let securityScore =
            (case securityScan data of
               None \<Rightarrow> 5
             | Some scan \<Rightarrow>
                 min 10 (real (critical scan) * 4 + real (high scan) * 2 + real (medium scan) * 1
                         + real (low scan) * (1 / 2)));
          performanceScore =
            (case performanceImpact data of
               None \<Rightarrow> 5
             | Some impact \<Rightarrow>
                 impactMap (cpuImpact impact) + impactMap (memoryImpact impact)
                 + impactMap (ioImpact impact) + real (length (scalabilityIssues impact)) * (1 / 2));
          architecturalScore =
            (case codeMetrics data of
               None \<Rightarrow> 5
             | Some metrics \<Rightarrow>
                 min 10 (cyclomatic (complexity metrics) / 10
                         + real (codeSmells (quality metrics)) * (1 / 2)));
          apiChanges = length (filter (\<lambda>f. includes_str (filename f) ''api''
                                          \<or> includes_str (filename f) ''interface'')
                                 (changedFiles data));
          compatibilityScore = min 10 (real apiChanges * 2);
          avgScore = (securityScore + performanceScore + architecturalScore + compatibilityScore) / 4;
          level = (if avgScore \<ge> 8 then CriticalRisk
                   else if avgScore \<ge> 6 then HighRisk
                   else if avgScore \<ge> 4 then MediumRisk
                   else LowRisk);
          line = trim (''Overall risk: '' @ levelName level @ ''. Key concerns: ''
                       @ (if securityScore \<ge> 7 then ''security '' else [])
                       @ (if performanceScore \<ge> 7 then ''performance '' else [])
                       @ (if architecturalScore \<ge> 7 then ''architecture '' else [])
                       @ (if compatibilityScore \<ge> 7 then ''compatibility'' else []))
      in \<lparr>overall = level,
          security = securityScore,
          performance = performanceScore,
          architectural = architecturalScore,
          compatibility = compatibilityScore,
          summary = (if line = [] then ''None identified'' else line)\<rparr>)"

section \<open>The argument miner (\<^verbatim>\<open>ArgumentMiner\<close>)\<close>

subsection \<open>Data\<close>

datatype evidence_kind = CodeEvidence | MetricEvidence | DocumentationEvidence
  | HistoricalEvidence | ExternalEvidence

text \<open>The interface \<^verbatim>\<open>Evidence\<close>; its field \<^verbatim>\<open>type\<close> is \<open>evidence_type\<close> here.\<close>

record Evidence =
  evidence_type :: evidence_kind
  content :: string
  source :: string
  confidence :: real

text \<open>
  The interface \<^verbatim>\<open>ToulminArgument\<close>; its field \<^verbatim>\<open>id\<close> is \<open>arg_id\<close> here.  The
  optional fields are \<open>None\<close> when \<^verbatim>\<open>undefined\<close>.  The timestamp is a number read from
  the clock.
\<close>

record ToulminArgument =
  arg_id :: string
  agent :: string
  timestamp :: nat
  claim :: string
  grounds :: "string list"
  warrant :: string
  backing :: "Evidence list"
  qualifier :: "string option"
  rebuttal :: "string option"
  strength :: real

datatype stance = Support | Attack | Neutral

datatype relation = Supports | Rebuts | Undermines | Qualifies

record ArgumentNode =
  node_id :: string
  node_argument :: ToulminArgument
  node_type :: stance

record ArgumentEdge =
  edge_from :: string
  edge_to :: string
  edge_type :: relation
  edge_strength :: real

record ArgumentGraph =
  nodes :: "ArgumentNode list"
  edges :: "ArgumentEdge list"

record ArgumentMetrics =
  totalArguments :: nat
  averageStrength :: jsnum
  consensusLevel :: real
  conflictPoints :: "string list"
  strongestArguments :: "ToulminArgument list"
  weakestArguments :: "ToulminArgument list"

text \<open>
  The two private fields of the class.  The \<^verbatim>\<open>Map\<close> keeps its keys in the order of
  their first insertion, as \<open>AList.update\<close> does.
\<close>

record ArgumentMiner =
  arguments :: "(string \<times> ToulminArgument) list"
  graph :: ArgumentGraph

definition newArgumentMiner :: ArgumentMiner where
  "newArgumentMiner = \<lparr>arguments = [], graph = \<lparr>nodes = [], edges = []\<rparr>\<rparr>"

subsection \<open>Evidence citations\<close>

text \<open>A group that takes part in every match of its pattern.\<close>

definition groupText :: "rmatch \<Rightarrow> nat \<Rightarrow> string" where
  "groupText m n = (case groupOf m n of Some g \<Rightarrow> g | None \<Rightarrow> [])"

text \<open>The five patterns of \<^verbatim>\<open>extractEvidence\<close>, in the source's order:
  \<^verbatim>\<open>/`([^`]+)`|```[\s\S]*?```/g\<close>,
  \<^verbatim>\<open>/(?:file|File):?\s*([^\s:]+):(\d+)/g\<close>,
  \<^verbatim>\<open>/(\d+(?:\.\d+)?)\s*(%|ms|MB|ops\/sec)/g\<close>,
  \<^verbatim>\<open>/\[([^\]]+)\]\(([^)]+)\)/g\<close>,
  \<^verbatim>\<open>/(?:commit|Commit)\s+([a-f0-9]{7,40})/g\<close>.\<close>

definition code_re :: re where
  "code_re =
     alts [seqs [chr CHR ''`'', Grp 1 (plus1 (noneOf ''`'')), chr CHR ''`''],
           seqs [lit ''```'', Rep anyChar 0 None False, lit ''```'']]"

definition fileReference_re :: re where
  "fileReference_re =
     seqs [alts [lit ''file'', lit ''File''], opt (chr CHR '':''), spaces,
           Grp 1 (plus1 (Cls (\<lambda>c. \<not> isSpace c \<and> c \<noteq> CHR '':''))), chr CHR '':'',
           Grp 2 (plus1 (Cls isDigit))]"

definition metric_re :: re where
  "metric_re =
     seqs [Grp 1 (seqs [plus1 (Cls isDigit), opt (seqs [chr CHR ''.'', plus1 (Cls isDigit)])]),
           spaces,
           Grp 2 (alts [lit ''%'', lit ''ms'', lit ''MB'', lit ''ops/sec''])]"

definition citation_re :: re where
  "citation_re =
     seqs [chr CHR ''['', Grp 1 (plus1 (noneOf '']'')), chr CHR '']'',
           chr CHR ''('', Grp 2 (plus1 (noneOf '')'')), chr CHR '')'']"

definition historical_re :: re where
  "historical_re =
     seqs [alts [lit ''commit'', lit ''Commit''], spaces1,
           Grp 1 (Rep (Cls (\<lambda>c. c \<in> set ''abcdef0123456789'')) 7 (Some 40) True)]"

definition extractEvidence :: "string \<Rightarrow> Evidence list" where
  "extractEvidence text =
     map (\<lambda>m. \<lparr>evidence_type = CodeEvidence,
               content = (case groupOf m 1 of None \<Rightarrow> fst m | Some g \<Rightarrow> if g = [] then fst m else g),
               source = ''inline'', confidence = 9 / 10\<rparr>)
         (matchAll code_re text)
     @ map (\<lambda>m. \<lparr>evidence_type = CodeEvidence,
                 content = groupText m 1 @ '':'' @ groupText m 2,
                 source = ''file'', confidence = 95 / 100\<rparr>)
           (matchAll fileReference_re text)
     @ map (\<lambda>m. \<lparr>evidence_type = MetricEvidence, content = fst m,
                 source = ''measurement'', confidence = 85 / 100\<rparr>)
           (matchAll metric_re text)
     @ map (\<lambda>m. \<lparr>evidence_type = ExternalEvidence, content = groupText m 1,
                 source = groupText m 2, confidence = 8 / 10\<rparr>)
           (matchAll citation_re text)
     @ map (\<lambda>m. \<lparr>evidence_type = HistoricalEvidence, content = groupText m 1,
                 source = ''git'', confidence = 9 / 10\<rparr>)
           (matchAll historical_re text)"

subsection \<open>Parsing the text of an agent\<close>

text \<open>The section markers \<^verbatim>\<open>/#{1,3}\s+\w+/g\<close>, \<^verbatim>\<open>/\n\n/g\<close> and \<^verbatim>\<open>/---+/g\<close>.\<close>

definition markers :: "re list" where
  "markers =
     [seqs [Rep (chr CHR ''#'') 1 (Some 3) True, spaces1, word1],
      lit [CHR 0x0A, CHR 0x0A],
      seqs [lit ''--'', plus1 (chr CHR ''-'')]]"

definition splitIntoSections :: "string \<Rightarrow> string list" where
  "splitIntoSections output =
     foldl (\<lambda>sections marker.
              concat (map (\<lambda>section. filter (\<lambda>p. length (trim p) > 50) (split marker section))
                          sections))
           [output] markers"

text \<open>The label patterns that the function reads:
  \<^verbatim>\<open>/claim[:\s]+([^\n]+)/i\<close>, \<^verbatim>\<open>/grounds?[:\s]+([^\n]+)/gi\<close>,
  \<^verbatim>\<open>/warrant[:\s]+([^\n]+)/i\<close>; and the sentence pattern \<^verbatim>\<open>/[^.!?]+[.!?]+/g\<close>.\<close>

definition labelled :: "re \<Rightarrow> re" where
  "labelled label =
     seqs [label, plus1 (Cls (\<lambda>c. c = CHR '':'' \<or> isSpace c)), Grp 1 (plus1 (noneOf [CHR 0x0A]))]"

definition claim_re :: re where
  "claim_re = labelled (liti ''claim'')"

definition grounds_re :: re where
  "grounds_re = labelled (seqs [liti ''ground'', opt (chri CHR ''s'')])"

definition warrant_re :: re where
  "warrant_re = labelled (liti ''warrant'')"

definition sentence_re :: re where
  "sentence_re = seqs [plus1 (noneOf ''.!?''), plus1 (Cls (\<lambda>c. c \<in> set ''.!?''))]"

text \<open>
  \<open>newId\<close> and \<open>now\<close> are what \<^verbatim>\<open>crypto.randomUUID()\<close> and \<^verbatim>\<open>new Date()\<close>
  return.  The source never assigns \<^verbatim>\<open>qualifier\<close> and \<^verbatim>\<open>rebuttal\<close>: the first
  stays the empty text, the second becomes \<^verbatim>\<open>undefined\<close>.
\<close>

definition extractToulminComponents :: "string \<Rightarrow> string \<Rightarrow> string \<Rightarrow> nat \<Rightarrow> ToulminArgument option" where
  "extractToulminComponents section agentName newId now =
     (let claim0 = (case matchFirst claim_re section of
                      None \<Rightarrow> [] | Some m \<Rightarrow> trim (groupText m 1));
          groundsList = map (\<lambda>m. trim (groupText m 1)) (matchAll grounds_re section);
          warrantText = (case matchFirst warrant_re section of
                           None \<Rightarrow> [] | Some m \<Rightarrow> trim (groupText m 1));
          claim1 = (if claim0 = []
                    then (case matchAll sentence_re section of
                            [] \<Rightarrow> [] | m # _ \<Rightarrow> trim (fst m))
                    else claim0);
          evidence = extractEvidence section
      in if claim1 = [] then None
         else Some \<lparr>arg_id = newId, agent = agentName, timestamp = now, claim = claim1,
                    grounds = groundsList, warrant = warrantText, backing = evidence,
                    qualifier = Some [], rebuttal = None, strength = 0\<rparr>)"

text \<open>
  The loop over the sections.  \<open>fresh k\<close> is the identifier and the time that the
  \<open>k\<close>-th argument created in this call receives.
\<close>

fun parseSections :: "(nat \<Rightarrow> string \<times> nat) \<Rightarrow> string \<Rightarrow> nat \<Rightarrow> string list \<Rightarrow> ToulminArgument list" where
  "parseSections fresh agentName k [] = []"
| "parseSections fresh agentName k (section # sections) =
     (case extractToulminComponents section agentName (fst (fresh k)) (snd (fresh k)) of
        None \<Rightarrow> parseSections fresh agentName k sections
      | Some argument \<Rightarrow> argument # parseSections fresh agentName (Suc k) sections)"

definition parseAgentOutput ::
  "ArgumentMiner \<Rightarrow> (nat \<Rightarrow> string \<times> nat) \<Rightarrow> string \<Rightarrow> string \<Rightarrow> ToulminArgument list \<times> ArgumentMiner" where
  "parseAgentOutput miner fresh agentName output =
     (let args = parseSections fresh agentName 0 (splitIntoSections output)
      in (args,
          miner\<lparr>arguments := foldl (\<lambda>m a. AList.update (arg_id a) a m) (arguments miner) args\<rparr>))"

subsection \<open>The argument graph\<close>

text \<open>\<^verbatim>\<open>/should not|must not|avoid|prevent|dangerous|vulnerable|risk/i\<close> and
  \<^verbatim>\<open>/should|must|improve|enhance|benefit|secure|safe/i\<close>\<close>

definition negativePhrases :: re where
  "negativePhrases =
     alts [liti ''should not'', liti ''must not'', liti ''avoid'', liti ''prevent'',
           liti ''dangerous'', liti ''vulnerable'', liti ''risk'']"

definition positivePhrases :: re where
  "positivePhrases =
     alts [liti ''should'', liti ''must'', liti ''improve'', liti ''enhance'',
           liti ''benefit'', liti ''secure'', liti ''safe'']"

definition classifyArgument :: "ToulminArgument \<Rightarrow> stance" where
  "classifyArgument argument =
     (if test negativePhrases (claim argument) then Attack
      else if test positivePhrases (claim argument) then Support
      else Neutral)"

text \<open>The Jaccard index of the two sets of lower-cased words; the words are the pieces
  of \<^verbatim>\<open>split(/\s+/)\<close>.\<close>

definition calculateSimilarity :: "string \<Rightarrow> string \<Rightarrow> real" where
  "calculateSimilarity text1 text2 =
     (let tokens1 = set (split spaces1 (toLowerCase text1));
          tokens2 = set (split spaces1 (toLowerCase text2));
          inter = Set.filter (\<lambda>x. x \<in> tokens2) tokens1;
          uni = tokens1 \<union> tokens2
      in if card uni > 0 then real (card inter) / real (card uni) else 0)"

definition opposites :: "(string \<times> string) list" where
  "opposites =
     [(''approve'', ''reject''), (''allow'', ''deny''), (''enable'', ''disable''),
      (''include'', ''exclude'')]"

definition areConflicting :: "ToulminArgument \<Rightarrow> ToulminArgument \<Rightarrow> bool" where
  "areConflicting arg1 arg2 =
     list_ex (\<lambda>(word1, word2).
                (includes_str (toLowerCase (claim arg1)) word1
                  \<and> includes_str (toLowerCase (claim arg2)) word2)
                \<or> (includes_str (toLowerCase (claim arg1)) word2
                  \<and> includes_str (toLowerCase (claim arg2)) word1))
             opposites"

definition analyzeRelationship :: "ToulminArgument \<Rightarrow> ToulminArgument \<Rightarrow> ArgumentEdge option" where
  "analyzeRelationship arg1 arg2 =
     (if includes_str (claim arg2) (agent arg1)
         \<or> (case rebuttal arg2 of
               None \<Rightarrow> False
             | Some r \<Rightarrow> includes_str r (take 20 (claim arg1)))
      then Some \<lparr>edge_from = arg_id arg2, edge_to = arg_id arg1, edge_type = Rebuts,
                 edge_strength = 8 / 10\<rparr>
      else
        let sim = calculateSimilarity (claim arg1) (claim arg2)
        in if sim > 7 / 10
           then Some \<lparr>edge_from = arg_id arg1, edge_to = arg_id arg2, edge_type = Supports,
                      edge_strength = sim\<rparr>
           else if areConflicting arg1 arg2
           then Some \<lparr>edge_from = arg_id arg1, edge_to = arg_id arg2, edge_type = Undermines,
                      edge_strength = 7 / 10\<rparr>
           else None)"

text \<open>The inner loop: the argument at index \<open>i\<close> against those at the indices \<open>j > i\<close>.\<close>

fun relateTo :: "ToulminArgument \<Rightarrow> ToulminArgument list \<Rightarrow> ArgumentEdge list" where
  "relateTo a [] = []"
| "relateTo a (b # bs) =
     (case analyzeRelationship a b of None \<Rightarrow> [] | Some e \<Rightarrow> [e]) @ relateTo a bs"

text \<open>The outer loop.\<close>

fun relateAll :: "ToulminArgument list \<Rightarrow> ArgumentEdge list" where
  "relateAll [] = []"
| "relateAll (a # as) = relateTo a as @ relateAll as"

text \<open>The method replaces the graph of the miner and returns it.\<close>

definition buildArgumentGraph :: "ArgumentMiner \<Rightarrow> ToulminArgument list \<Rightarrow> ArgumentGraph \<times> ArgumentMiner" where
  "buildArgumentGraph miner args =
     (let g = \<lparr>nodes = map (\<lambda>a. \<lparr>node_id = arg_id a, node_argument = a,
                                  node_type = classifyArgument a\<rparr>) args,
               edges = relateAll args\<rparr>
      in (g, miner\<lparr>graph := g\<rparr>))"

subsection \<open>Strength, conflicts and consensus\<close>

fun weights :: "evidence_kind \<Rightarrow> real" where
  "weights CodeEvidence = 9 / 10"
| "weights MetricEvidence = 85 / 100"
| "weights DocumentationEvidence = 7 / 10"
| "weights HistoricalEvidence = 8 / 10"
| "weights ExternalEvidence = 6 / 10"

definition calculateEvidenceQuality :: "Evidence list \<Rightarrow> real" where
  "calculateEvidenceQuality evidence =
     (if length evidence = 0 then 0
      else min 1 (foldl (\<lambda>total e. total + weights (evidence_type e) * confidence e) 0 evidence
                  / real (length evidence)))"

text \<open>A text is truthy when it is defined and not empty.\<close>

definition truthy :: "string option \<Rightarrow> bool" where
  "truthy s = (case s of None \<Rightarrow> False | Some t \<Rightarrow> t \<noteq> [])"

definition calculateArgumentStrength :: "ArgumentGraph \<Rightarrow> ToulminArgument \<Rightarrow> real" where
  "calculateArgumentStrength g argument =
     (let hasGrounds = (if length (grounds argument) > 0 then 2 / 10 else 0);
          groundsQuality = min (real (length (grounds argument)) * (1 / 10)) (3 / 10);
          hasWarrant = (if warrant argument \<noteq> [] then 2 / 10 else 0);
          hasEvidence = (if length (backing argument) > 0 then 1 / 10 else 0);
          evidenceQuality = calculateEvidenceQuality (backing argument) * (2 / 10);
          s0 = hasGrounds + groundsQuality + hasWarrant + hasEvidence + evidenceQuality;
          s1 = (if truthy (qualifier argument) then s0 + 5 / 100 else s0);
          s2 = (if truthy (rebuttal argument) then s1 + 5 / 100 else s1);
          supportingEdges = filter (\<lambda>e. edge_to e = arg_id argument \<and> edge_type e = Supports)
                              (edges g);
          attackingEdges = filter (\<lambda>e. edge_to e = arg_id argument
                                        \<and> (edge_type e = Rebuts \<or> edge_type e = Undermines))
                             (edges g);
          s3 = s2 + real (length supportingEdges) * (5 / 100);
          s4 = s3 - real (length attackingEdges) * (5 / 100)
      in max 0 (min 1 s4))"

definition truncate :: "string \<Rightarrow> nat \<Rightarrow> string" where
  "truncate text maxLength =
     (if length text \<le> maxLength then text else take (maxLength - 3) text @ ''...'')"

definition findConflictPoints :: "ArgumentGraph \<Rightarrow> string list" where
  "findConflictPoints g =
     concat (map (\<lambda>edge.
        if edge_type edge = Rebuts \<or> edge_type edge = Undermines
        then (case (find (\<lambda>n. node_id n = edge_from edge) (nodes g),
                    find (\<lambda>n. node_id n = edge_to edge) (nodes g)) of
                (Some fromNode, Some toNode) \<Rightarrow>
                  [agent (node_argument fromNode) @ '' vs '' @ agent (node_argument toNode)
                   @ '': '' @ truncate (claim (node_argument fromNode)) 30]
              | _ \<Rightarrow> [])
        else []) (edges g))"

text \<open>The two counters of the loop over the edges: (supportCount, conflictCount).\<close>

definition countEdge :: "nat \<times> nat \<Rightarrow> ArgumentEdge \<Rightarrow> nat \<times> nat" where
  "countEdge counts edge =
     (case counts of
        (supportCount, conflictCount) \<Rightarrow>
          if edge_type edge = Supports then (supportCount + 1, conflictCount)
          else if edge_type edge = Rebuts \<or> edge_type edge = Undermines
          then (supportCount, conflictCount + 1)
          else (supportCount, conflictCount))"

definition calculateConsensusLevel :: "ArgumentGraph \<Rightarrow> real" where
  "calculateConsensusLevel g =
     (if length (nodes g) = 0 then 0
      else (case foldl countEdge (0, 0) (edges g) of
              (supportCount, conflictCount) \<Rightarrow>
                let totalEdges = supportCount + conflictCount
                in if totalEdges = 0 then 1 / 2
                   else real supportCount / real totalEdges))"

text \<open>
  The method sets the strength of every stored argument and returns the metrics.  The
  sort is stable and descending in the strength.
\<close>

definition generateMetrics :: "ArgumentMiner \<Rightarrow> ArgumentMetrics \<times> ArgumentMiner" where
  "generateMetrics miner =
     (let stored = map (\<lambda>(k, a). (k, a\<lparr>strength := calculateArgumentStrength (graph miner) a\<rparr>))
                     (arguments miner);
          allArguments = map snd stored;
          sortedByStrength = sort_key (\<lambda>a. - strength a) allArguments;
          conflicts = findConflictPoints (graph miner);
          consensus = calculateConsensusLevel (graph miner)
      in (\<lparr>totalArguments = length allArguments,
           averageStrength =
             (if length allArguments = 0 then NaN
              else Num (foldl (\<lambda>total a. total + strength a) 0 allArguments
                        / real (length allArguments))),
           consensusLevel = consensus,
           conflictPoints = conflicts,
           strongestArguments = take 3 sortedByStrength,
           weakestArguments = rev (drop (length sortedByStrength - 3) sortedByStrength)\<rparr>,
          miner\<lparr>arguments := stored\<rparr>))"

section \<open>Properties\<close>

text \<open>A split has at least one piece, so the first field of a line of the log exists.\<close>

lemma splitOn_nonempty: "splitOn d s \<noteq> []"
  by (induction s) (auto split: list.splits)

subsection \<open>Token-set similarity\<close>

lemma splitLoop_nonempty: "splitLoop r piece p s \<noteq> []"
  by (induction r piece p s rule: splitLoop.induct) (auto split: option.splits)

lemma spaces1_no_empty_match: "matchAt spaces1 p [] = None"
  unfolding matchAt_def spaces1_def plus1_def
  by (subst run.simps, subst repeat.simps) simp

lemma split_spaces1_nonempty: "split spaces1 s \<noteq> []"
  by (simp add: split_def splitLoop_nonempty spaces1_no_empty_match)

lemma jaccard_sym:
  "(if card (A \<union> B) > 0 then real (card (Set.filter (\<lambda>x. x \<in> B) A)) / real (card (A \<union> B)) else 0)
   = (if card (B \<union> A) > 0 then real (card (Set.filter (\<lambda>x. x \<in> A) B)) / real (card (B \<union> A)) else 0)"
proof -
  have "Set.filter (\<lambda>x. x \<in> B) A = Set.filter (\<lambda>x. x \<in> A) B" by auto
  moreover have "A \<union> B = B \<union> A" by auto
  ultimately show ?thesis by simp
qed

lemma jaccard_self:
  assumes "finite A"
  shows "(if card (A \<union> A) > 0 then real (card (Set.filter (\<lambda>x. x \<in> A) A)) / real (card (A \<union> A)) else 0)
         = (if A = {} then 0 else (1::real))"
proof -
  have "Set.filter (\<lambda>x. x \<in> A) A = A" by auto
  then show ?thesis using assms by (auto simp: card_gt_0_iff)
qed

text \<open>
  C1, as the code has it: both similarities are symmetric; the similarity of the words of
  two claims (\<open>calculateSimilarity\<close>) is 1 on equal texts, for every text, because
  \<^verbatim>\<open>split\<close> always returns a piece; the similarity of two diffs
  (\<open>calculateDiffSimilarity\<close>) is 1 on equal texts that hold a word token, and 0 on equal
  texts that hold none (the union is empty there, and the code returns 0).
\<close>

theorem similarity_symmetric_reflexive:
  "calculateDiffSimilarity a b = calculateDiffSimilarity b a
   \<and> calculateSimilarity a b = calculateSimilarity b a
   \<and> calculateSimilarity a a = 1
   \<and> calculateDiffSimilarity a a = (if matchAll token_re a = [] then 0 else 1)"
proof (intro conjI)
  show "calculateDiffSimilarity a b = calculateDiffSimilarity b a"
    unfolding calculateDiffSimilarity_def Let_def by (rule jaccard_sym)
  show "calculateSimilarity a b = calculateSimilarity b a"
    unfolding calculateSimilarity_def Let_def by (rule jaccard_sym)
  have "calculateSimilarity a a = (if set (split spaces1 (toLowerCase a)) = {} then 0 else 1)"
    unfolding calculateSimilarity_def Let_def by (rule jaccard_self) simp
  then show "calculateSimilarity a a = 1"
    by (simp add: split_spaces1_nonempty)
  have "calculateDiffSimilarity a a = (if set (map fst (matchAll token_re a)) = {} then 0 else 1)"
    unfolding calculateDiffSimilarity_def Let_def by (rule jaccard_self) simp
  then show "calculateDiffSimilarity a a = (if matchAll token_re a = [] then 0 else 1)"
    by simp
qed

text \<open>C1, an instance: two diff lines and two claims.\<close>

theorem similarity_symmetric_reflexive_witness:
  "calculateDiffSimilarity ''+ foo(bar)'' ''- foo(baz)''
     = calculateDiffSimilarity ''- foo(baz)'' ''+ foo(bar)''
   \<and> calculateSimilarity ''Use a cache'' ''use the   cache''
     = calculateSimilarity ''use the   cache'' ''Use a cache''
   \<and> calculateSimilarity ''Use a cache'' ''Use a cache'' = 1
   \<and> calculateDiffSimilarity ''+ foo(bar)'' ''+ foo(bar)'' = 1
   \<and> matchAll token_re ''+ foo(bar)'' \<noteq> []"
proof -
  have "matchAll token_re ''+ foo(bar)'' \<noteq> []" by code_simp
  then show ?thesis
    using similarity_symmetric_reflexive [of "''+ foo(bar)''" "''- foo(baz)''"]
      similarity_symmetric_reflexive [of "''Use a cache''" "''use the   cache''"]
      similarity_symmetric_reflexive [of "''+ foo(bar)''" "''+ foo(bar)''"]
      similarity_symmetric_reflexive [of "''Use a cache''" "''Use a cache''"]
    by presburger
qed

text \<open>
  C1 as stated fails: the similarity of the empty diff with itself is 0, not 1.
\<close>

theorem diff_similarity_of_empty_diffs:
  "calculateDiffSimilarity [] [] = 0 \<and> calculateDiffSimilarity [] [] \<noteq> 1"
  by code_simp

subsection \<open>Consensus level\<close>

lemma foldl_countEdge:
  "foldl countEdge (s, c) es =
     (s + length (filter (\<lambda>e. edge_type e = Supports) es),
      c + length (filter (\<lambda>e. edge_type e = Rebuts \<or> edge_type e = Undermines) es))"
  by (induction es arbitrary: s c) (auto simp: countEdge_def)

lemma consensus_range: "0 \<le> calculateConsensusLevel g \<and> calculateConsensusLevel g \<le> 1"
  by (auto simp: calculateConsensusLevel_def foldl_countEdge Let_def divide_le_eq)

lemma consensus_neutral:
  assumes "nodes g \<noteq> []"
    and "\<forall>e \<in> set (edges g). edge_type e = Qualifies"
  shows "calculateConsensusLevel g = 1 / 2"
proof -
  have "filter (\<lambda>e. edge_type e = Supports) (edges g) = []"
    using assms(2) by (auto simp: filter_empty_conv)
  moreover have "filter (\<lambda>e. edge_type e = Rebuts \<or> edge_type e = Undermines) (edges g) = []"
    using assms(2) by (auto simp: filter_empty_conv)
  ultimately show ?thesis using assms(1)
    by (simp add: calculateConsensusLevel_def foldl_countEdge)
qed

lemma consensus_empty: "nodes g = [] \<Longrightarrow> calculateConsensusLevel g = 0"
  by (simp add: calculateConsensusLevel_def)

lemma generateMetrics_consensus:
  "consensusLevel (fst (generateMetrics miner)) = calculateConsensusLevel (graph miner)"
  by (simp add: generateMetrics_def Let_def)

text \<open>
  C2, as the code has it: for every state of the miner (so for every graph that
  \<open>buildArgumentGraph\<close> has stored), the consensus level that \<open>generateMetrics\<close> returns
  lies between 0 and 1; it is one half when the graph has a node and no edge of type
  supports, rebuts or undermines (every edge, if any, is of type qualifies); and it is 0
  when the graph has no node.
\<close>

theorem consensusLevel_range_and_defaults:
  "0 \<le> consensusLevel (fst (generateMetrics miner))
   \<and> consensusLevel (fst (generateMetrics miner)) \<le> 1
   \<and> (nodes (graph miner) \<noteq> [] \<and> (\<forall>e \<in> set (edges (graph miner)). edge_type e = Qualifies)
        \<longrightarrow> consensusLevel (fst (generateMetrics miner)) = 1 / 2)
   \<and> (nodes (graph miner) = [] \<longrightarrow> consensusLevel (fst (generateMetrics miner)) = 0)"
  using consensus_range [of "graph miner"] consensus_neutral [of "graph miner"]
    consensus_empty [of "graph miner"]
  by (simp add: generateMetrics_consensus)

text \<open>
  C2, two instances: the graph built from one argument has a node and no edge; the graph
  of a new miner has no node.
\<close>

theorem consensusLevel_range_and_defaults_witness:
  "nodes (graph (snd (buildArgumentGraph newArgumentMiner
      [\<lparr>arg_id = ''a-1'', agent = ''security'', timestamp = 0,
        claim = ''The input must be validated'', grounds = [], warrant = [], backing = [],
        qualifier = Some [], rebuttal = None, strength = 0\<rparr>]))) \<noteq> []
   \<and> edges (graph (snd (buildArgumentGraph newArgumentMiner
      [\<lparr>arg_id = ''a-1'', agent = ''security'', timestamp = 0,
        claim = ''The input must be validated'', grounds = [], warrant = [], backing = [],
        qualifier = Some [], rebuttal = None, strength = 0\<rparr>]))) = []
   \<and> consensusLevel (fst (generateMetrics (snd (buildArgumentGraph newArgumentMiner
      [\<lparr>arg_id = ''a-1'', agent = ''security'', timestamp = 0,
        claim = ''The input must be validated'', grounds = [], warrant = [], backing = [],
        qualifier = Some [], rebuttal = None, strength = 0\<rparr>])))) = 1 / 2
   \<and> nodes (graph newArgumentMiner) = []
   \<and> consensusLevel (fst (generateMetrics newArgumentMiner)) = 0"
  using consensusLevel_range_and_defaults [of "snd (buildArgumentGraph newArgumentMiner
      [\<lparr>arg_id = ''a-1'', agent = ''security'', timestamp = 0,
        claim = ''The input must be validated'', grounds = [], warrant = [], backing = [],
        qualifier = Some [], rebuttal = None, strength = 0\<rparr>])"]
    consensusLevel_range_and_defaults [of newArgumentMiner]
  by (simp add: buildArgumentGraph_def Let_def newArgumentMiner_def)

text \<open>
  C2 as stated fails on the empty graph: built from no argument, the graph has no edge at
  all, and the consensus level is 0, not one half.
\<close>

theorem consensusLevel_of_empty_graph:
  "edges (graph (snd (buildArgumentGraph newArgumentMiner []))) = []
   \<and> consensusLevel (fst (generateMetrics (snd (buildArgumentGraph newArgumentMiner [])))) = 0
   \<and> consensusLevel (fst (generateMetrics (snd (buildArgumentGraph newArgumentMiner [])))) \<noteq> 1 / 2"
  by (simp add: buildArgumentGraph_def Let_def generateMetrics_consensus calculateConsensusLevel_def)

subsection \<open>Maintainability index\<close>

lemma maintainabilityIndex_without_functions:
  assumes "snd (snd (foldl (addComplexity fs) (0, 0, 0) fileList)) = 0"
  shows "maintainabilityIndex (calculateComplexity fs fileList) = PosInfinity"
proof -
  obtain a b c where f: "foldl (addComplexity fs) (0, 0, 0) fileList = (a, b, c)"
    by (cases "foldl (addComplexity fs) (0, 0, 0) fileList") auto
  with assms have "c = 0" by simp
  with f show ?thesis
    by (simp add: calculateComplexity_def js_sub_def js_signed_inf_def)
qed

text \<open>
  Where a function is found, the index is the finite, non-negative number of the formula,
  the average taken as it is (an average below 1 is not raised to 1).
\<close>

lemma foldl_addComplexity_counts:
  "foldl (addComplexity fs) (a, b, c) fileList = (cy, cg, fn)
   \<Longrightarrow> a + length fileList \<le> cy \<and> (fileList = [] \<longrightarrow> fn = c)"
proof (induction fileList arbitrary: a b c)
  case Nil
  then show ?case by simp
next
  case (Cons f fl)
  obtain x y z where step: "addComplexity fs (a, b, c) f = (x, y, z)"
    by (cases "addComplexity fs (a, b, c) f") auto
  then have "a + 1 \<le> x"
    by (auto simp: addComplexity_def analyzeCodeComplexity_def Let_def)
  moreover from Cons.prems step have "foldl (addComplexity fs) (x, y, z) fl = (cy, cg, fn)"
    by simp
  from Cons.IH [OF this] have "x + length fl \<le> cy" by simp
  ultimately show ?case by simp
qed

lemma maintainabilityIndex_with_functions:
  assumes "foldl (addComplexity fs) (0, 0, 0) fileList = (cy, cg, fn)"
    and "0 < fn"
  shows "maintainabilityIndex (calculateComplexity fs fileList)
         = Num (max 0 (171 - 52 / 10 * ln (real cy / real fn) - 23 / 100 * real cg))"
proof -
  from foldl_addComplexity_counts [OF assms(1)] assms(2) have "fileList \<noteq> []" by auto
  with foldl_addComplexity_counts [OF assms(1)] have "0 < cy"
    by (cases fileList) auto
  with assms(2) have "0 < real cy / real fn" by simp
  then have pos: "\<not> real cy / real fn < 0" "real cy / real fn \<noteq> 0" by linarith+
  with assms show ?thesis
    by (simp add: calculateComplexity_def js_sub_def Let_def)
qed

text \<open>
  C3 fails on the code: the average is not clamped before the logarithm.  For a change
  that touches one file without any function (here a README), the average is 0,
  \<^verbatim>\<open>Math.log(0)\<close> is \<^verbatim>\<open>-Infinity\<close>, and the maintainability index that
  \<open>extractCodeMetrics\<close> returns is \<^verbatim>\<open>Infinity\<close>: not a finite number.
\<close>

theorem maintainabilityIndex_infinite_without_functions:
  "maintainabilityIndex (complexity (extractCodeMetrics
      (\<lambda>p. if p = ''README.md'' then Some ''# Notes'' else None) None [''README.md'']))
     = PosInfinity
   \<and> \<not> js_finite (maintainabilityIndex (complexity (extractCodeMetrics
      (\<lambda>p. if p = ''README.md'' then Some ''# Notes'' else None) None [''README.md''])))"
proof -
  have "snd (snd (foldl (addComplexity (\<lambda>p. if p = ''README.md'' then Some ''# Notes'' else None))
                    (0, 0, 0) [''README.md''])) = 0"
    by code_simp
  from maintainabilityIndex_without_functions [OF this] show ?thesis
    by (simp add: extractCodeMetrics_def js_finite_def)
qed

subsection \<open>Risk assessment\<close>

text \<open>
  C4 fails on the code: the performance score has no upper bound.  A change of three
  files, two with nested loops, a query in a loop and chained array operations, one with
  a query in a loop, has the impact below (two high levels, one medium level, five
  scalability issues), and its performance score is 10.5.
\<close>

theorem performance_score_above_ten:
  "analyzePerformanceImpact
      (\<lambda>p. if p = ''c.ts'' then Some ''for (r of rows) { await db.query(r) }''
           else Some (''for (a) { for (b) {} } for (c) { for (d) {} } for (e) { for (f) {} } ''
                      @ ''for (g) { await db.query(x) } xs.map(f).filter(g).map(h)''))
      [\<lparr>change_file = ''a.ts'', change_type = Modified, additions = 3, deletions = 1,
         patches = []\<rparr>,
       \<lparr>change_file = ''b.ts'', change_type = Added, additions = 3, deletions = 0,
         patches = []\<rparr>,
       \<lparr>change_file = ''c.ts'', change_type = Modified, additions = 3, deletions = 1,
         patches = []\<rparr>]
     = \<lparr>cpuImpact = High, memoryImpact = Medium, ioImpact = High,
          estimatedLatencyChange = 900,
          scalabilityIssues =
            [''Deeply nested loops in a.ts'', ''N+1 query pattern detected in a.ts'',
             ''Deeply nested loops in b.ts'', ''N+1 query pattern detected in b.ts'',
             ''N+1 query pattern detected in c.ts''],
          optimizationOpportunities =
            [''Optimize array operations in a.ts'', ''Optimize array operations in b.ts'']\<rparr>
   \<and> performance (calculateRiskAssessment
      \<lparr>securityScan = None, codeMetrics = None,
       performanceImpact = Some
         \<lparr>cpuImpact = High, memoryImpact = Medium, ioImpact = High,
          estimatedLatencyChange = 900,
          scalabilityIssues =
            [''Deeply nested loops in a.ts'', ''N+1 query pattern detected in a.ts'',
             ''Deeply nested loops in b.ts'', ''N+1 query pattern detected in b.ts'',
             ''N+1 query pattern detected in c.ts''],
          optimizationOpportunities =
            [''Optimize array operations in a.ts'', ''Optimize array operations in b.ts'']\<rparr>,
       changedFiles =
         [\<lparr>filename = ''a.ts'', file_additions = 3, file_deletions = 1, changes = 4,
            patch = None\<rparr>,
          \<lparr>filename = ''b.ts'', file_additions = 3, file_deletions = 0, changes = 3,
            patch = None\<rparr>,
          \<lparr>filename = ''c.ts'', file_additions = 3, file_deletions = 1, changes = 4,
            patch = None\<rparr>]\<rparr>) = 21 / 2
   \<and> 10 < performance (calculateRiskAssessment
      \<lparr>securityScan = None, codeMetrics = None,
       performanceImpact = Some
         \<lparr>cpuImpact = High, memoryImpact = Medium, ioImpact = High,
          estimatedLatencyChange = 900,
          scalabilityIssues =
            [''Deeply nested loops in a.ts'', ''N+1 query pattern detected in a.ts'',
             ''Deeply nested loops in b.ts'', ''N+1 query pattern detected in b.ts'',
             ''N+1 query pattern detected in c.ts''],
          optimizationOpportunities =
            [''Optimize array operations in a.ts'', ''Optimize array operations in b.ts'']\<rparr>,
       changedFiles =
         [\<lparr>filename = ''a.ts'', file_additions = 3, file_deletions = 1, changes = 4,
            patch = None\<rparr>,
          \<lparr>filename = ''b.ts'', file_additions = 3, file_deletions = 0, changes = 3,
            patch = None\<rparr>,
          \<lparr>filename = ''c.ts'', file_additions = 3, file_deletions = 1, changes = 4,
            patch = None\<rparr>]\<rparr>)"
proof -
  have "analyzePerformanceImpact
      (\<lambda>p. if p = ''c.ts'' then Some ''for (r of rows) { await db.query(r) }''
           else Some (''for (a) { for (b) {} } for (c) { for (d) {} } for (e) { for (f) {} } ''
                      @ ''for (g) { await db.query(x) } xs.map(f).filter(g).map(h)''))
      [\<lparr>change_file = ''a.ts'', change_type = Modified, additions = 3, deletions = 1,
         patches = []\<rparr>,
       \<lparr>change_file = ''b.ts'', change_type = Added, additions = 3, deletions = 0,
         patches = []\<rparr>,
       \<lparr>change_file = ''c.ts'', change_type = Modified, additions = 3, deletions = 1,
         patches = []\<rparr>]
     = \<lparr>cpuImpact = High, memoryImpact = Medium, ioImpact = High,
          estimatedLatencyChange = 900,
          scalabilityIssues =
            [''Deeply nested loops in a.ts'', ''N+1 query pattern detected in a.ts'',
             ''Deeply nested loops in b.ts'', ''N+1 query pattern detected in b.ts'',
             ''N+1 query pattern detected in c.ts''],
          optimizationOpportunities =
            [''Optimize array operations in a.ts'', ''Optimize array operations in b.ts'']\<rparr>"
    by code_simp
  then show ?thesis
    by (simp add: calculateRiskAssessment_def Let_def)
qed

lemma overall_thresholds:
  "overall (calculateRiskAssessment d) =
     (let avgScore = (security (calculateRiskAssessment d) + performance (calculateRiskAssessment d)
                      + architectural (calculateRiskAssessment d)
                      + compatibility (calculateRiskAssessment d)) / 4
      in if avgScore \<ge> 8 then CriticalRisk
         else if avgScore \<ge> 6 then HighRisk
         else if avgScore \<ge> 4 then MediumRisk
         else LowRisk)"
  by (simp add: calculateRiskAssessment_def Let_def split del: if_split)

text \<open>
  C5, as the code has it: the overall level follows from the unweighted mean of the four
  scores by the thresholds 8 (critical), 6 (high) and 4 (medium), and is low below 4; so
  the scores 9, 2, 2, 2 (mean 3.75) give the level low.
\<close>

theorem overall_level_by_thresholds:
  "overall (calculateRiskAssessment d) =
     (let avgScore = (security (calculateRiskAssessment d) + performance (calculateRiskAssessment d)
                      + architectural (calculateRiskAssessment d)
                      + compatibility (calculateRiskAssessment d)) / 4
      in if avgScore \<ge> 8 then CriticalRisk
         else if avgScore \<ge> 6 then HighRisk
         else if avgScore \<ge> 4 then MediumRisk
         else LowRisk)
   \<and> (security (calculateRiskAssessment d) = 9 \<and> performance (calculateRiskAssessment d) = 2
        \<and> architectural (calculateRiskAssessment d) = 2
        \<and> compatibility (calculateRiskAssessment d) = 2
        \<longrightarrow> overall (calculateRiskAssessment d) = LowRisk)"
proof (intro conjI impI)
  show "overall (calculateRiskAssessment d) =
     (let avgScore = (security (calculateRiskAssessment d) + performance (calculateRiskAssessment d)
                      + architectural (calculateRiskAssessment d)
                      + compatibility (calculateRiskAssessment d)) / 4
      in if avgScore \<ge> 8 then CriticalRisk
         else if avgScore \<ge> 6 then HighRisk
         else if avgScore \<ge> 4 then MediumRisk
         else LowRisk)"
    by (rule overall_thresholds)
next
  assume "security (calculateRiskAssessment d) = 9 \<and> performance (calculateRiskAssessment d) = 2
        \<and> architectural (calculateRiskAssessment d) = 2
        \<and> compatibility (calculateRiskAssessment d) = 2"
  then show "overall (calculateRiskAssessment d) = LowRisk"
    by (subst overall_thresholds) (simp add: Let_def)
qed

text \<open>C5, an instance: an input whose four scores are 9, 2, 2 and 2.\<close>

theorem overall_level_by_thresholds_witness:
  "(let r = calculateRiskAssessment
      \<lparr>securityScan = Some \<lparr>vulnerabilities = 4, critical = 1, high = 2, medium = 1, low = 0\<rparr>,
       codeMetrics = Some
         \<lparr>complexity = \<lparr>cyclomatic = 20, cognitive = 30,
                         halstead = \<lparr>difficulty = 40, volume = 20, effort = 400\<rparr>,
                         maintainabilityIndex = Num 148\<rparr>,
          size_metrics = \<lparr>loc = 300, sloc = 280, files = 2, size_functions = 2, classes = 1\<rparr>,
          quality = \<lparr>duplicateLines = 0, duplicateBlocks = 0, codeSmells = 0, technicalDebt = 0\<rparr>,
          dependencies = \<lparr>direct = 3, transitive = 9, outdated = 0, vulnerable = 0, licenses = []\<rparr>\<rparr>,
       performanceImpact = Some
         \<lparr>cpuImpact = NoImpact, memoryImpact = Medium, ioImpact = NoImpact,
          estimatedLatencyChange = 0, scalabilityIssues = [],
          optimizationOpportunities = [''Optimize array operations in lib/interface.ts'']\<rparr>,
       changedFiles = [\<lparr>filename = ''lib/interface.ts'', file_additions = 4, file_deletions = 4,
                         changes = 8, patch = None\<rparr>,
                       \<lparr>filename = ''lib/util.ts'', file_additions = 1, file_deletions = 0,
                         changes = 1, patch = None\<rparr>]\<rparr>
    in security r = 9 \<and> performance r = 2 \<and> architectural r = 2 \<and> compatibility r = 2
       \<and> overall r = LowRisk)"
proof -
  have "(let r = calculateRiskAssessment
      \<lparr>securityScan = Some \<lparr>vulnerabilities = 4, critical = 1, high = 2, medium = 1, low = 0\<rparr>,
       codeMetrics = Some
         \<lparr>complexity = \<lparr>cyclomatic = 20, cognitive = 30,
                         halstead = \<lparr>difficulty = 40, volume = 20, effort = 400\<rparr>,
                         maintainabilityIndex = Num 148\<rparr>,
          size_metrics = \<lparr>loc = 300, sloc = 280, files = 2, size_functions = 2, classes = 1\<rparr>,
          quality = \<lparr>duplicateLines = 0, duplicateBlocks = 0, codeSmells = 0, technicalDebt = 0\<rparr>,
          dependencies = \<lparr>direct = 3, transitive = 9, outdated = 0, vulnerable = 0, licenses = []\<rparr>\<rparr>,
       performanceImpact = Some
         \<lparr>cpuImpact = NoImpact, memoryImpact = Medium, ioImpact = NoImpact,
          estimatedLatencyChange = 0, scalabilityIssues = [],
          optimizationOpportunities = [''Optimize array operations in lib/interface.ts'']\<rparr>,
       changedFiles = [\<lparr>filename = ''lib/interface.ts'', file_additions = 4, file_deletions = 4,
                         changes = 8, patch = None\<rparr>,
                       \<lparr>filename = ''lib/util.ts'', file_additions = 1, file_deletions = 0,
                         changes = 1, patch = None\<rparr>]\<rparr>
    in security r = 9 \<and> performance r = 2 \<and> architectural r = 2 \<and> compatibility r = 2)"
    by code_simp
  then show ?thesis
    using overall_level_by_thresholds [of "\<lparr>securityScan = Some \<lparr>vulnerabilities = 4, critical = 1, high = 2, medium = 1, low = 0\<rparr>,
       codeMetrics = Some
         \<lparr>complexity = \<lparr>cyclomatic = 20, cognitive = 30,
                         halstead = \<lparr>difficulty = 40, volume = 20, effort = 400\<rparr>,
                         maintainabilityIndex = Num 148\<rparr>,
          size_metrics = \<lparr>loc = 300, sloc = 280, files = 2, size_functions = 2, classes = 1\<rparr>,
          quality = \<lparr>duplicateLines = 0, duplicateBlocks = 0, codeSmells = 0, technicalDebt = 0\<rparr>,
          dependencies = \<lparr>direct = 3, transitive = 9, outdated = 0, vulnerable = 0, licenses = []\<rparr>\<rparr>,
       performanceImpact = Some
         \<lparr>cpuImpact = NoImpact, memoryImpact = Medium, ioImpact = NoImpact,
          estimatedLatencyChange = 0, scalabilityIssues = [],
          optimizationOpportunities = [''Optimize array operations in lib/interface.ts'']\<rparr>,
       changedFiles = [\<lparr>filename = ''lib/interface.ts'', file_additions = 4, file_deletions = 4,
                         changes = 8, patch = None\<rparr>,
                       \<lparr>filename = ''lib/util.ts'', file_additions = 1, file_deletions = 0,
                         changes = 1, patch = None\<rparr>]\<rparr>"]
    by (simp add: Let_def)
qed

text \<open>
  C5 as stated fails: for an input whose four scores are 9, 2, 2 and 2 the overall level
  is low, not medium.
\<close>

theorem overall_level_of_scenario_is_low:
  "(let r = calculateRiskAssessment
      \<lparr>securityScan = Some \<lparr>vulnerabilities = 3, critical = 2, high = 0, medium = 1, low = 0\<rparr>,
       codeMetrics = Some
         \<lparr>complexity = \<lparr>cyclomatic = 10, cognitive = 12,
                         halstead = \<lparr>difficulty = 20, volume = 10, effort = 100\<rparr>,
                         maintainabilityIndex = Num 156\<rparr>,
          size_metrics = \<lparr>loc = 400, sloc = 350, files = 1, size_functions = 1, classes = 0\<rparr>,
          quality = \<lparr>duplicateLines = 0, duplicateBlocks = 0, codeSmells = 2, technicalDebt = 45\<rparr>,
          dependencies = \<lparr>direct = 0, transitive = 0, outdated = 0, vulnerable = 0, licenses = []\<rparr>\<rparr>,
       performanceImpact = Some
         \<lparr>cpuImpact = NoImpact, memoryImpact = Medium, ioImpact = NoImpact,
          estimatedLatencyChange = 0, scalabilityIssues = [],
          optimizationOpportunities = [''Optimize array operations in src/api.ts'']\<rparr>,
       changedFiles = [\<lparr>filename = ''src/api.ts'', file_additions = 10, file_deletions = 2,
                         changes = 12, patch = None\<rparr>]\<rparr>
    in security r = 9 \<and> performance r = 2 \<and> architectural r = 2 \<and> compatibility r = 2
       \<and> overall r = LowRisk \<and> overall r \<noteq> MediumRisk)"
  by code_simp

subsection \<open>The parser on the scenario text\<close>

lemma scenario_sections:
  "splitIntoSections ''Claim: Use caching. Grounds: profiling shows 80% cpu time here.''
   = [''Claim: Use caching. Grounds: profiling shows 80% cpu time here.'']"
  by code_simp

lemma scenario_claim:
  "(case matchFirst claim_re ''Claim: Use caching. Grounds: profiling shows 80% cpu time here.'' of
      None \<Rightarrow> [] | Some m \<Rightarrow> trim (groupText m 1))
   = ''Use caching. Grounds: profiling shows 80% cpu time here.''"
  by code_simp

lemma scenario_grounds:
  "map (\<lambda>m. trim (groupText m 1))
     (matchAll grounds_re ''Claim: Use caching. Grounds: profiling shows 80% cpu time here.'')
   = [''profiling shows 80% cpu time here.'']"
  by code_simp

lemma scenario_argument:
  "\<exists>a. extractToulminComponents ''Claim: Use caching. Grounds: profiling shows 80% cpu time here.''
          agentName newId now = Some a
     \<and> claim a = ''Use caching. Grounds: profiling shows 80% cpu time here.''
     \<and> grounds a = [''profiling shows 80% cpu time here.'']"
  unfolding extractToulminComponents_def Let_def scenario_claim scenario_grounds
  by simp

text \<open>
  C6, as the code has it: for every state of the miner, every agent name and every
  supply of identifiers, \<open>parseAgentOutput\<close> on the scenario text yields exactly one
  argument; its claim is the rest of the line after the label, that is
  \<^verbatim>\<open>Use caching. Grounds: profiling shows 80% cpu time here.\<close>, and its grounds list has
  exactly one entry, \<^verbatim>\<open>profiling shows 80% cpu time here.\<close>
\<close>

theorem parseAgentOutput_scenario:
  "\<exists>a. fst (parseAgentOutput miner fresh agentName ''Claim: Use caching. Grounds: profiling shows 80% cpu time here.'') = [a]
       \<and> claim a = ''Use caching. Grounds: profiling shows 80% cpu time here.''
       \<and> grounds a = [''profiling shows 80% cpu time here.'']"
proof -
  obtain a where
    "extractToulminComponents ''Claim: Use caching. Grounds: profiling shows 80% cpu time here.''
       agentName (fst (fresh 0)) (snd (fresh 0)) = Some a"
    "claim a = ''Use caching. Grounds: profiling shows 80% cpu time here.''"
    "grounds a = [''profiling shows 80% cpu time here.'']"
    using scenario_argument by blast
  then show ?thesis
    by (simp add: parseAgentOutput_def Let_def scenario_sections)
qed

text \<open>C6, an instance: a fresh miner and the agent \<^verbatim>\<open>performance\<close>.\<close>

theorem parseAgentOutput_scenario_witness:
  "map claim (fst (parseAgentOutput newArgumentMiner (\<lambda>k. (''arg-1'', 0)) ''performance''
               ''Claim: Use caching. Grounds: profiling shows 80% cpu time here.''))
     = [''Use caching. Grounds: profiling shows 80% cpu time here.'']
   \<and> map grounds (fst (parseAgentOutput newArgumentMiner (\<lambda>k. (''arg-1'', 0)) ''performance''
               ''Claim: Use caching. Grounds: profiling shows 80% cpu time here.''))
     = [[''profiling shows 80% cpu time here.'']]"
  using parseAgentOutput_scenario [of newArgumentMiner "\<lambda>k. (''arg-1'', 0)" "''performance''"]
  by auto

text \<open>
  C6 as stated fails: the claim of the one argument is not \<^verbatim>\<open>Use caching.\<close>; the
  pattern of the label takes the whole rest of the line.
\<close>

theorem parseAgentOutput_scenario_claim_is_not_first_sentence:
  "map claim (fst (parseAgentOutput newArgumentMiner (\<lambda>k. (''arg-1'', 0)) ''performance''
               ''Claim: Use caching. Grounds: profiling shows 80% cpu time here.''))
   \<noteq> [''Use caching.'']"
  by code_simp

subsection \<open>The edges of the argument graph\<close>

lemma scenario_similarity:
  "calculateSimilarity ''We should approve this change'' ''We should reject this change'' = 2 / 3"
  by code_simp

lemma scenario_conflict:
  "includes_str (toLowerCase ''We should approve this change'') ''approve''
   \<and> includes_str (toLowerCase ''We should reject this change'') ''reject''"
  by code_simp

text \<open>
  C7: for two arguments with the claims \<^verbatim>\<open>We should approve this change\<close> and
  \<^verbatim>\<open>We should reject this change\<close>, where the second claim does not mention the agent
  of the first and the second argument has no rebuttal text, the graph has exactly one
  edge: it leads from the first argument to the second, has type undermines and
  strength 0.7.
\<close>

theorem approve_reject_undermines:
  assumes "claim a1 = ''We should approve this change''"
    and "claim a2 = ''We should reject this change''"
    and "\<not> includes_str (claim a2) (agent a1)"
    and "\<not> truthy (rebuttal a2)"
  shows "edges (fst (buildArgumentGraph miner [a1, a2]))
         = [\<lparr>edge_from = arg_id a1, edge_to = arg_id a2, edge_type = Undermines,
             edge_strength = 7 / 10\<rparr>]"
proof -
  have reb: "\<not> (case rebuttal a2 of None \<Rightarrow> False | Some r \<Rightarrow> includes_str r (take 20 (claim a1)))"
    using assms(1,4) by (auto simp: truthy_def split: option.splits)
  have conf: "areConflicting a1 a2"
    using scenario_conflict by (simp add: areConflicting_def opposites_def assms(1,2))
  have "analyzeRelationship a1 a2
        = Some \<lparr>edge_from = arg_id a1, edge_to = arg_id a2, edge_type = Undermines,
                 edge_strength = 7 / 10\<rparr>"
    using reb conf assms(3) scenario_similarity
    by (simp add: analyzeRelationship_def Let_def assms(1,2))
  then show ?thesis
    by (simp add: buildArgumentGraph_def Let_def)
qed

text \<open>C7, an instance: the agents \<^verbatim>\<open>security\<close> and \<^verbatim>\<open>performance\<close>.\<close>

theorem approve_reject_undermines_witness:
  "edges (fst (buildArgumentGraph newArgumentMiner
      [\<lparr>arg_id = ''a-1'', agent = ''security'', timestamp = 0,
        claim = ''We should approve this change'', grounds = [], warrant = [], backing = [],
        qualifier = Some [], rebuttal = None, strength = 0\<rparr>,
       \<lparr>arg_id = ''a-2'', agent = ''performance'', timestamp = 1,
        claim = ''We should reject this change'', grounds = [], warrant = [], backing = [],
        qualifier = Some [], rebuttal = None, strength = 0\<rparr>]))
   = [\<lparr>edge_from = ''a-1'', edge_to = ''a-2'', edge_type = Undermines, edge_strength = 7 / 10\<rparr>]"
proof -
  have "\<not> includes_str ''We should reject this change'' ''security''" by code_simp
  then show ?thesis
    using approve_reject_undermines [of
       "\<lparr>arg_id = ''a-1'', agent = ''security'', timestamp = 0,
        claim = ''We should approve this change'', grounds = [], warrant = [], backing = [],
        qualifier = Some [], rebuttal = None, strength = 0\<rparr>"
       "\<lparr>arg_id = ''a-2'', agent = ''performance'', timestamp = 1,
        claim = ''We should reject this change'', grounds = [], warrant = [], backing = [],
        qualifier = Some [], rebuttal = None, strength = 0\<rparr>"
       newArgumentMiner]
    by (simp add: truthy_def)
qed

lemma analyzeRelationship_type:
  "analyzeRelationship a b = Some e \<Longrightarrow> edge_type e \<in> {Supports, Rebuts, Undermines}"
  by (auto simp: analyzeRelationship_def Let_def split: if_splits)

lemma relateTo_type:
  "e \<in> set (relateTo a bs) \<Longrightarrow> edge_type e \<in> {Supports, Rebuts, Undermines}"
proof (induction bs)
  case Nil
  then show ?case by simp
next
  case (Cons b bs)
  show ?case
  proof (cases "analyzeRelationship a b")
    case None
    with Cons show ?thesis by simp
  next
    case (Some e')
    from analyzeRelationship_type [OF Some] Cons Some show ?thesis by auto
  qed
qed

lemma relateAll_type:
  "e \<in> set (relateAll as) \<Longrightarrow> edge_type e \<in> {Supports, Rebuts, Undermines}"
  by (induction as) (auto dest: relateTo_type)

text \<open>
  C10: every edge of a graph that \<open>buildArgumentGraph\<close> builds has the type supports,
  rebuts or undermines; no edge has the type qualifies.
\<close>

theorem edges_never_qualify:
  "\<forall>e \<in> set (edges (fst (buildArgumentGraph miner args))).
     edge_type e \<in> {Supports, Rebuts, Undermines} \<and> edge_type e \<noteq> Qualifies"
proof
  fix e
  assume "e \<in> set (edges (fst (buildArgumentGraph miner args)))"
  then have "e \<in> set (relateAll args)"
    by (simp add: buildArgumentGraph_def Let_def)
  from relateAll_type [OF this]
  show "edge_type e \<in> {Supports, Rebuts, Undermines} \<and> edge_type e \<noteq> Qualifies"
    by auto
qed

text \<open>C10, an instance: a graph with one edge, of type rebuts.\<close>

theorem edges_never_qualify_witness:
  "\<lparr>edge_from = ''a-2'', edge_to = ''a-1'', edge_type = Rebuts, edge_strength = 8 / 10\<rparr>
     \<in> set (edges (fst (buildArgumentGraph newArgumentMiner
      [\<lparr>arg_id = ''a-1'', agent = ''security'', timestamp = 0,
        claim = ''The input must be validated'', grounds = [], warrant = [], backing = [],
        qualifier = Some [], rebuttal = None, strength = 0\<rparr>,
       \<lparr>arg_id = ''a-2'', agent = ''performance'', timestamp = 1,
        claim = ''The check that security asks for is cheap'', grounds = [], warrant = [],
        backing = [], qualifier = Some [], rebuttal = None, strength = 0\<rparr>])))
   \<and> edge_type \<lparr>edge_from = ''a-2'', edge_to = ''a-1'', edge_type = Rebuts, edge_strength = 8 / 10\<rparr>
       \<in> {Supports, Rebuts, Undermines}
   \<and> edge_type \<lparr>edge_from = ''a-2'', edge_to = ''a-1'', edge_type = Rebuts, edge_strength = 8 / 10\<rparr>
       \<noteq> Qualifies"
proof -
  have "includes_str ''The check that security asks for is cheap'' ''security''"
    by code_simp
  then have "\<lparr>edge_from = ''a-2'', edge_to = ''a-1'', edge_type = Rebuts, edge_strength = 8 / 10\<rparr>
     \<in> set (edges (fst (buildArgumentGraph newArgumentMiner
      [\<lparr>arg_id = ''a-1'', agent = ''security'', timestamp = 0,
        claim = ''The input must be validated'', grounds = [], warrant = [], backing = [],
        qualifier = Some [], rebuttal = None, strength = 0\<rparr>,
       \<lparr>arg_id = ''a-2'', agent = ''performance'', timestamp = 1,
        claim = ''The check that security asks for is cheap'', grounds = [], warrant = [],
        backing = [], qualifier = Some [], rebuttal = None, strength = 0\<rparr>])))"
    by (simp add: buildArgumentGraph_def Let_def analyzeRelationship_def)
  with edges_never_qualify show ?thesis by blast
qed

subsection \<open>Historical matches\<close>

lemma scanCommits_scored:
  "map (\<lambda>m. (commit m, similarity m)) (scanCommits env diff commits)
   = map (\<lambda>l. (commitHash l, commitSimilarity env diff l))
       (filter (\<lambda>l. 3 / 10 < commitSimilarity env diff l)
          (takeWhile (\<lambda>l. gitShow env (commitHash l) \<noteq> None) commits))"
  by (induction commits) (auto simp: Let_def commitSimilarity_def split: option.splits)

text \<open>
  C8, as the code has it: the lines of the log are scanned up to the first one whose
  \<^verbatim>\<open>git show\<close> throws; a scanned commit is kept as a candidate exactly when its
  similarity to the current diff is greater than 0.3 (so it is discarded when the
  similarity is 0.3 or less); the candidates keep the order of the log, and the result of
  \<open>findSimilarChanges\<close> is the first ten of them after a stable sort by descending
  similarity.
\<close>

theorem candidates_above_threshold:
  "map (\<lambda>m. (commit m, similarity m)) (scanCommits env diff commits)
   = map (\<lambda>l. (commitHash l, commitSimilarity env diff l))
       (filter (\<lambda>l. 3 / 10 < commitSimilarity env diff l)
          (takeWhile (\<lambda>l. gitShow env (commitHash l) \<noteq> None) commits))
   \<and> findSimilarChanges env diff
     = take 10 (sort_key (\<lambda>m. - similarity m)
         (case gitLog env of None \<Rightarrow> []
          | Some out \<Rightarrow> scanCommits env diff (splitOn CHR 0x0A (trim out))))"
  by (simp add: scanCommits_scored findSimilarChanges_def Let_def)

text \<open>
  C8, an instance: of four lines, the first scores 0.3 and is dropped, the second scores
  3/7 and is kept, the third cannot be shown and ends the scan.
\<close>

theorem candidates_above_threshold_witness:
  "map (\<lambda>m. (commit m, similarity m))
     (scanCommits
        \<lparr>gitLog = Some [],
         gitShow = (\<lambda>h. if h = ''1f3a9c2'' then Some ''- a b c g''
                         else if h = ''77b0e41'' then Some ''- a b c g h i j''
                         else None),
         gitBranchContains = (\<lambda>h. Some ''* main''),
         gitRevertSearch = (\<lambda>h. Some []),
         gitMessage = (\<lambda>h. Some ''Add cache (#12)'')\<rparr>
        ''+ a b c d e f''
        [''77b0e41|2024-05-03 09:00:00 +0000|bob|Tune'',
         ''1f3a9c2|2024-05-02 10:00:00 +0000|alice|Add cache'',
         ''0000000|2024-05-01 08:00:00 +0000|carol|Gone'',
         ''1f3a9c2|2024-05-02 10:00:00 +0000|alice|Add cache''])
   = [(''1f3a9c2'', 3 / 7)]"
proof -
  have "map (\<lambda>l. (commitHash l, commitSimilarity
        \<lparr>gitLog = Some [],
         gitShow = (\<lambda>h. if h = ''1f3a9c2'' then Some ''- a b c g''
                         else if h = ''77b0e41'' then Some ''- a b c g h i j''
                         else None),
         gitBranchContains = (\<lambda>h. Some ''* main''),
         gitRevertSearch = (\<lambda>h. Some []),
         gitMessage = (\<lambda>h. Some ''Add cache (#12)'')\<rparr>
        ''+ a b c d e f'' l))
       (filter (\<lambda>l. 3 / 10 < commitSimilarity
        \<lparr>gitLog = Some [],
         gitShow = (\<lambda>h. if h = ''1f3a9c2'' then Some ''- a b c g''
                         else if h = ''77b0e41'' then Some ''- a b c g h i j''
                         else None),
         gitBranchContains = (\<lambda>h. Some ''* main''),
         gitRevertSearch = (\<lambda>h. Some []),
         gitMessage = (\<lambda>h. Some ''Add cache (#12)'')\<rparr>
        ''+ a b c d e f'' l)
          (takeWhile (\<lambda>l. gitShow
        \<lparr>gitLog = Some [],
         gitShow = (\<lambda>h. if h = ''1f3a9c2'' then Some ''- a b c g''
                         else if h = ''77b0e41'' then Some ''- a b c g h i j''
                         else None),
         gitBranchContains = (\<lambda>h. Some ''* main''),
         gitRevertSearch = (\<lambda>h. Some []),
         gitMessage = (\<lambda>h. Some ''Add cache (#12)'')\<rparr>
             (commitHash l) \<noteq> None)
        [''77b0e41|2024-05-03 09:00:00 +0000|bob|Tune'',
         ''1f3a9c2|2024-05-02 10:00:00 +0000|alice|Add cache'',
         ''0000000|2024-05-01 08:00:00 +0000|carol|Gone'',
         ''1f3a9c2|2024-05-02 10:00:00 +0000|alice|Add cache'']))
     = [(''1f3a9c2'', 3 / 7)]"
    by code_simp
  with candidates_above_threshold [of
        "\<lparr>gitLog = Some [],
         gitShow = (\<lambda>h. if h = ''1f3a9c2'' then Some ''- a b c g''
                         else if h = ''77b0e41'' then Some ''- a b c g h i j''
                         else None),
         gitBranchContains = (\<lambda>h. Some ''* main''),
         gitRevertSearch = (\<lambda>h. Some []),
         gitMessage = (\<lambda>h. Some ''Add cache (#12)'')\<rparr>"
        "''+ a b c d e f''"
        "[''77b0e41|2024-05-03 09:00:00 +0000|bob|Tune'',
         ''1f3a9c2|2024-05-02 10:00:00 +0000|alice|Add cache'',
         ''0000000|2024-05-01 08:00:00 +0000|carol|Gone'',
         ''1f3a9c2|2024-05-02 10:00:00 +0000|alice|Add cache'']", THEN conjunct1]
  show ?thesis by (rule trans)
qed

text \<open>
  C8 as stated fails: a commit whose similarity to the current diff is exactly 0.3 (three
  shared tokens of ten) is not below 0.3, and yet it is discarded.
\<close>

theorem commit_at_threshold_is_discarded:
  "calculateDiffSimilarity ''+ a b c d e f'' (trim ''- a b c g h i j'') = 3 / 10
   \<and> findSimilarChanges
       \<lparr>gitLog = Some ''1f3a9c2|2024-05-02 10:00:00 +0000|alice|Add cache'',
        gitShow = (\<lambda>h. if h = ''1f3a9c2'' then Some ''- a b c g h i j'' else None),
        gitBranchContains = (\<lambda>h. Some ''* main''),
        gitRevertSearch = (\<lambda>h. Some []),
        gitMessage = (\<lambda>h. Some ''Add cache (#12)'')\<rparr>
       ''+ a b c d e f'' = []"
  by code_simp

subsection \<open>Performance impact\<close>

lemma analyzeChange_deleted: "change_type c = Deleted \<Longrightarrow> analyzeChange fs acc c = acc"
  by (simp add: analyzeChange_def)

lemma analyzeChange_path:
  "change_type c \<noteq> Deleted \<Longrightarrow> change_type c' \<noteq> Deleted \<Longrightarrow> change_file c = change_file c'
   \<Longrightarrow> analyzeChange fs acc c = analyzeChange fs acc c'"
  unfolding analyzeChange_def by (simp only: if_False)

lemma foldl_analyzeChange_filter:
  "foldl (analyzeChange fs) acc cs
   = foldl (analyzeChange fs) acc (filter (\<lambda>c. change_type c \<noteq> Deleted) cs)"
  by (induction cs arbitrary: acc) (simp_all add: analyzeChange_deleted)

lemma foldl_analyzeChange_paths:
  "\<forall>c \<in> set xs. change_type c \<noteq> Deleted \<Longrightarrow> \<forall>c \<in> set ys. change_type c \<noteq> Deleted
   \<Longrightarrow> map change_file xs = map change_file ys
   \<Longrightarrow> foldl (analyzeChange fs) acc xs = foldl (analyzeChange fs) acc ys"
proof (induction xs arbitrary: ys acc)
  case Nil
  then show ?case by simp
next
  case (Cons x xs)
  then obtain y ys' where ys: "ys = y # ys'" by (cases ys) auto
  with Cons.prems have "analyzeChange fs acc x = analyzeChange fs acc y"
    by (intro analyzeChange_path) auto
  moreover have "foldl (analyzeChange fs) (analyzeChange fs acc y) xs
                 = foldl (analyzeChange fs) (analyzeChange fs acc y) ys'"
    using Cons.prems ys by (intro Cons.IH) auto
  ultimately show ?case using ys by simp
qed

lemma same_paths_kinds:
  "map (\<lambda>c. (change_file c, change_type c)) cs = map (\<lambda>c. (change_file c, change_type c)) cs'
   \<Longrightarrow> map change_file (filter (\<lambda>c. change_type c \<noteq> Deleted) cs)
       = map change_file (filter (\<lambda>c. change_type c \<noteq> Deleted) cs')"
proof (induction cs arbitrary: cs')
  case Nil
  then show ?case by simp
next
  case (Cons c cs)
  then obtain d ds where "cs' = d # ds" by (cases cs') auto
  with Cons show ?case by auto
qed

lemma impact_paths:
  assumes "map change_file (filter (\<lambda>c. change_type c \<noteq> Deleted) cs)
           = map change_file (filter (\<lambda>c. change_type c \<noteq> Deleted) cs')"
  shows "analyzePerformanceImpact fs cs = analyzePerformanceImpact fs cs'"
  unfolding analyzePerformanceImpact_def
  by (subst foldl_analyzeChange_filter, subst (2) foldl_analyzeChange_filter)
     (rule foldl_analyzeChange_paths, use assms in auto)

text \<open>
  C9: with the same file store, the result of \<open>analyzePerformanceImpact\<close> depends only on
  the paths of the changes that are not deletions, in their order.  In particular two
  lists of changes with the same paths and the same types, whatever their additions,
  deletions and patches, give the same result.
\<close>

theorem performance_impact_depends_on_paths_only:
  "(map change_file (filter (\<lambda>c. change_type c \<noteq> Deleted) cs)
      = map change_file (filter (\<lambda>c. change_type c \<noteq> Deleted) cs')
    \<longrightarrow> analyzePerformanceImpact fs cs = analyzePerformanceImpact fs cs')
   \<and> (map (\<lambda>c. (change_file c, change_type c)) cs = map (\<lambda>c. (change_file c, change_type c)) cs'
    \<longrightarrow> analyzePerformanceImpact fs cs = analyzePerformanceImpact fs cs')"
  using impact_paths same_paths_kinds by blast

text \<open>
  C9, two instances: two lists that differ in the additions, deletions and patches; and
  two lists with the same paths of their changes that are not deletions.
\<close>

theorem performance_impact_depends_on_paths_only_witness:
  "analyzePerformanceImpact (\<lambda>p. if p = ''src/db.ts'' then Some ''x = readFileSync(f)'' else None)
      [\<lparr>change_file = ''src/db.ts'', change_type = Modified, additions = 3, deletions = 1,
         patches = [''@@ -1 +1 @@'']\<rparr>,
       \<lparr>change_file = ''src/old.ts'', change_type = Deleted, additions = 0, deletions = 9,
         patches = []\<rparr>]
   = analyzePerformanceImpact (\<lambda>p. if p = ''src/db.ts'' then Some ''x = readFileSync(f)'' else None)
      [\<lparr>change_file = ''src/db.ts'', change_type = Modified, additions = 40, deletions = 0,
         patches = []\<rparr>,
       \<lparr>change_file = ''src/old.ts'', change_type = Deleted, additions = 0, deletions = 120,
         patches = [''@@ -1,9 +0,0 @@'']\<rparr>]
   \<and> analyzePerformanceImpact (\<lambda>p. if p = ''src/db.ts'' then Some ''x = readFileSync(f)'' else None)
      [\<lparr>change_file = ''src/db.ts'', change_type = Modified, additions = 3, deletions = 1,
         patches = [''@@ -1 +1 @@'']\<rparr>,
       \<lparr>change_file = ''src/old.ts'', change_type = Deleted, additions = 0, deletions = 9,
         patches = []\<rparr>]
   = analyzePerformanceImpact (\<lambda>p. if p = ''src/db.ts'' then Some ''x = readFileSync(f)'' else None)
      [\<lparr>change_file = ''src/db.ts'', change_type = Added, additions = 7, deletions = 0,
         patches = []\<rparr>]"
  using performance_impact_depends_on_paths_only [of
      "[\<lparr>change_file = ''src/db.ts'', change_type = Modified, additions = 3, deletions = 1,
         patches = [''@@ -1 +1 @@'']\<rparr>,
       \<lparr>change_file = ''src/old.ts'', change_type = Deleted, additions = 0, deletions = 9,
         patches = []\<rparr>]"
      "[\<lparr>change_file = ''src/db.ts'', change_type = Modified, additions = 40, deletions = 0,
         patches = []\<rparr>,
       \<lparr>change_file = ''src/old.ts'', change_type = Deleted, additions = 0, deletions = 120,
         patches = [''@@ -1,9 +0,0 @@'']\<rparr>]"
      "(\<lambda>p. if p = ''src/db.ts'' then Some ''x = readFileSync(f)'' else None)"]
    performance_impact_depends_on_paths_only [of
      "[\<lparr>change_file = ''src/db.ts'', change_type = Modified, additions = 3, deletions = 1,
         patches = [''@@ -1 +1 @@'']\<rparr>,
       \<lparr>change_file = ''src/old.ts'', change_type = Deleted, additions = 0, deletions = 9,
         patches = []\<rparr>]"
      "[\<lparr>change_file = ''src/db.ts'', change_type = Added, additions = 7, deletions = 0,
         patches = []\<rparr>]"
      "(\<lambda>p. if p = ''src/db.ts'' then Some ''x = readFileSync(f)'' else None)"]
  by simp

end
